theory Spec2Isabelle
  imports Main "HOL-Library.Sublist"
begin

section \<open>Python values used by the quiz generator\<close>

text \<open>
  A Python \<open>str\<close> is a sequence of Unicode code points, so it is modelled as a list of
  naturals (one per code point): \<open>len\<close> is \<open>length\<close>, \<open>s[:n]\<close> is \<open>take n s\<close> and
  \<open>s[n:]\<close> is \<open>drop n s\<close>. A \<open>bytes\<close> object is a list of byte values. Source
  literals are written as HOL strings and converted by \<open>py\<close>.
\<close>

type_synonym pystr = "nat list"
type_synonym pybytes = "nat list"

definition py :: "string \<Rightarrow> pystr" where
  "py s = map of_char s"

text \<open>The code points that \<open>str.strip()\<close> without argument removes (\<open>str.isspace\<close>).\<close>

definition isspace :: "nat \<Rightarrow> bool" where
  "isspace c \<longleftrightarrow>
     (9 \<le> c \<and> c \<le> 13) \<or> (28 \<le> c \<and> c \<le> 32) \<or> c = 133 \<or> c = 160 \<or> c = 5760 \<or>
     (8192 \<le> c \<and> c \<le> 8202) \<or> c = 8232 \<or> c = 8233 \<or> c = 8239 \<or> c = 8287 \<or> c = 12288"

definition strip :: "pystr \<Rightarrow> pystr" where
  "strip s = rev (dropWhile isspace (rev (dropWhile isspace s)))"

definition startswith :: "pystr \<Rightarrow> pystr \<Rightarrow> bool" where
  "startswith s p \<longleftrightarrow> take (length p) s = p"

definition endswith :: "pystr \<Rightarrow> pystr \<Rightarrow> bool" where
  "endswith s p \<longleftrightarrow> length p \<le> length s \<and> drop (length s - length p) s = p"

text \<open>\<open>str(n)\<close> for an integer: decimal digits, with a minus sign when negative.\<close>

fun digits :: "nat \<Rightarrow> pystr" where
  "digits n = (if n < 10 then [48 + n] else digits (n div 10) @ [48 + n mod 10])"

declare digits.simps [simp del]

definition str_int :: "int \<Rightarrow> pystr" where
  "str_int i = (if i < 0 then 45 # digits (nat (- i)) else digits (nat i))"

text \<open>
  What \<open>json.loads\<close> returns: \<open>None\<close>, \<open>bool\<close>, \<open>int\<close>, \<open>float\<close> (kept as its token),
  \<open>str\<close>, \<open>list\<close> and \<open>dict\<close> (keys in insertion order; \<open>dict.get\<close> is \<open>map_of\<close>).
\<close>

datatype json =
    JNull
  | JBool bool
  | JInt int
  | JFloat pystr
  | JStr pystr
  | JList "json list"
  | JDict "(pystr \<times> json) list"

section \<open>Exceptions, collaborators and effects\<close>

text \<open>
  Every \<open>raise\<close> of the source is a value \<open>Inl e\<close>. \<open>HTTPException\<close> carries its
  status code and detail. \<open>ValidationError\<close> carries the model name and the keyword
  arguments that were rejected, \<open>TypeError\<close> and \<open>AttributeError\<close> the offending object,
  \<open>JSONDecodeError\<close> and \<open>OtherException\<close> (any other class, raised by a library) the
  library's own description.
\<close>

datatype exn =
    HTTPException int pystr
  | JSONDecodeError pystr
  | ValidationError pystr "(pystr \<times> json) list"
  | TypeError json
  | AttributeError json
  | OtherException pystr

text \<open>
  The libraries the program calls are parameters of the model:
  \<^item> \<open>pdf_page_texts\<close>: \<open>PyPDF2.PdfReader(io.BytesIO(b)).pages\<close> with \<open>extract_text()\<close> of
    each page in order, or the exception raised on the way;
  \<^item> \<open>chat_completion\<close>: \<open>client.chat.completions.create(...).choices[0].message.content\<close>
    for a system instruction and a user prompt (the content may be \<open>None\<close>);
  \<^item> \<open>json_loads\<close>: \<open>json.loads\<close>;
  \<^item> \<open>str_exc\<close>: \<open>str(e)\<close> of an exception.
\<close>

record env =
  pdf_page_texts :: "pybytes \<Rightarrow> exn + pystr list"
  chat_completion :: "pystr \<Rightarrow> pystr \<Rightarrow> exn + pystr option"
  json_loads :: "pystr \<Rightarrow> exn + json"
  str_exc :: "exn \<Rightarrow> pystr"

text \<open>
  The calls that leave the handler are logged in order: reading the upload, handing
  bytes to the PDF library, and calling the model service. Each function returns its
  result together with the events it caused. (The two \<open>print\<close> calls are not modelled.)
\<close>

datatype event =
    FileRead
  | PdfRead pybytes
  | ChatCompletion pystr pystr

section \<open>Response models\<close>

text \<open>
  The pydantic models. Three of them have a field \<open>question\<close>; the selectors are
  \<open>mcq_question\<close>, \<open>sa_question\<close> and \<open>fb_question\<close>, every other field keeps its name.
\<close>

record MCQQuestion =
  mcq_question :: pystr
  options :: "pystr list"
  correct_answer :: pystr
  explanation :: "pystr option"

record ShortAnswerQuestion =
  sa_question :: pystr
  expected_answer :: pystr

record FillInTheBlank =
  fb_question :: pystr
  answer :: pystr
  hint :: "pystr option"

record QuizResponse =
  success :: bool
  message :: pystr
  mcq_questions :: "MCQQuestion list"
  short_answer_questions :: "ShortAnswerQuestion list"
  fill_in_the_blanks :: "FillInTheBlank list"
  total_questions :: int

text \<open>
  Field validation as pydantic (version 2, default configuration) performs it on values
  decoded from JSON: a \<open>str\<close> field accepts a string, a \<open>List[str]\<close> field a list of
  strings, an \<open>Optional[str] = None\<close> field a string, \<open>None\<close> or nothing at all. Keys
  that are not fields are ignored. A constructor that rejects its arguments raises
  \<open>ValidationError\<close>.
\<close>

fun validate_str :: "json \<Rightarrow> pystr option" where
  "validate_str (JStr s) = Some s"
| "validate_str _ = None"

fun validate_list_str :: "json \<Rightarrow> pystr list option" where
  "validate_list_str (JList xs) = those (map validate_str xs)"
| "validate_list_str _ = None"

fun validate_optional_str :: "json option \<Rightarrow> pystr option option" where
  "validate_optional_str None = Some None"
| "validate_optional_str (Some JNull) = Some None"
| "validate_optional_str (Some (JStr s)) = Some (Some s)"
| "validate_optional_str (Some _) = None"

definition required :: "(pystr \<times> json) list \<Rightarrow> pystr \<Rightarrow> (json \<Rightarrow> 'a option) \<Rightarrow> 'a option" where
  "required kw k validate = (case map_of kw k of None \<Rightarrow> None | Some v \<Rightarrow> validate v)"

definition MCQQuestion_init :: "(pystr \<times> json) list \<Rightarrow> exn + MCQQuestion" where
  "MCQQuestion_init kw =
     (case (required kw (py ''question'') validate_str,
            required kw (py ''options'') validate_list_str,
            required kw (py ''correct_answer'') validate_str,
            validate_optional_str (map_of kw (py ''explanation''))) of
        (Some q, Some os, Some c, Some e) \<Rightarrow>
          Inr \<lparr>mcq_question = q, options = os, correct_answer = c, explanation = e\<rparr>
      | _ \<Rightarrow> Inl (ValidationError (py ''MCQQuestion'') kw))"

definition ShortAnswerQuestion_init :: "(pystr \<times> json) list \<Rightarrow> exn + ShortAnswerQuestion" where
  "ShortAnswerQuestion_init kw =
     (case (required kw (py ''question'') validate_str,
            required kw (py ''expected_answer'') validate_str) of
        (Some q, Some a) \<Rightarrow> Inr \<lparr>sa_question = q, expected_answer = a\<rparr>
      | _ \<Rightarrow> Inl (ValidationError (py ''ShortAnswerQuestion'') kw))"

definition FillInTheBlank_init :: "(pystr \<times> json) list \<Rightarrow> exn + FillInTheBlank" where
  "FillInTheBlank_init kw =
     (case (required kw (py ''question'') validate_str,
            required kw (py ''answer'') validate_str,
            validate_optional_str (map_of kw (py ''hint''))) of
        (Some q, Some a, Some h) \<Rightarrow> Inr \<lparr>fb_question = q, answer = a, hint = h\<rparr>
      | _ \<Rightarrow> Inl (ValidationError (py ''FillInTheBlank'') kw))"

section \<open>Text extraction\<close>

text \<open>
  \<open>extract_text_from_pdf\<close>: the page texts are concatenated, each followed by a newline,
  and the result is stripped. Any exception of the PDF library becomes a 400.
\<close>

definition extract_text_from_pdf :: "env \<Rightarrow> pybytes \<Rightarrow> (exn + pystr) \<times> event list" where
  "extract_text_from_pdf w pdf_bytes =
     ((case pdf_page_texts w pdf_bytes of
         Inl e \<Rightarrow> Inl (HTTPException 400 (py ''Error reading PDF: '' @ str_exc w e))
       | Inr pages \<Rightarrow> Inr (strip (foldl (\<lambda>text page. text @ page @ py ''\<newline>'') [] pages))),
      [PdfRead pdf_bytes])"

section \<open>Prompt, model call and response parsing\<close>

text \<open>The f-string of \<open>generate_questions_with_azure\<close>, line by line.\<close>

definition prompt :: "pystr \<Rightarrow> int \<Rightarrow> int \<Rightarrow> int \<Rightarrow> pystr" where
  \<open>prompt text num_mcq num_short num_blanks = concat
    [py ''Based on the following text, generate questions in THREE categories:\<newline>'',
     py ''\<newline>'',
     py ''TEXT:\<newline>'',
     take 8000 text, py ''\<newline>'',
     py ''\<newline>'',
     py ''Generate exactly:\<newline>'',
     py ''1. '', str_int num_mcq, py '' Multiple Choice Questions (MCQ)\<newline>'',
     py ''2. '', str_int num_short, py '' Short Answer Questions\<newline>'',
     py ''3. '', str_int num_blanks, py '' Fill in the Blank Questions\<newline>'',
     py ''\<newline>'',
     py ''Return your response as a VALID JSON object with this EXACT structure:\<newline>'',
     py ''{\<newline>'',
     py ''  "mcq": [\<newline>'',
     py ''    {\<newline>'',
     py ''      "question": "Question text?",\<newline>'',
     py ''      "options": ["A) Option 1", "B) Option 2", "C) Option 3", "D) Option 4"],\<newline>'',
     py ''      "correct_answer": "A",\<newline>'',
     py ''      "explanation": "Brief explanation"\<newline>'',
     py ''    }\<newline>'',
     py ''  ],\<newline>'',
     py ''  "short_answer": [\<newline>'',
     py ''    {\<newline>'',
     py ''      "question": "Question text?",\<newline>'',
     py ''      "expected_answer": "Expected answer in 2-3 sentences"\<newline>'',
     py ''    }\<newline>'',
     py ''  ],\<newline>'',
     py ''  "fill_in_the_blanks": [\<newline>'',
     py ''    {\<newline>'',
     py ''      "question": "The capital of France is _____.",\<newline>'',
     py ''      "answer": "Paris",\<newline>'',
     py ''      "hint": "A European city"\<newline>'',
     py ''    }\<newline>'',
     py ''  ]\<newline>'',
     py ''}\<newline>'',
     py ''\<newline>'',
     py ''IMPORTANT: Return ONLY valid JSON, no extra text or markdown.'']\<close>

definition system_message :: pystr where
  "system_message = py ''You are an expert educator who creates high-quality assessment questions. Always respond with valid JSON only.''"

text \<open>The cleaning of the completion (\<open># Clean response\<close>): strip, three tests, strip.\<close>

definition clean_response :: "pystr \<Rightarrow> pystr" where
  "clean_response response_text =
     (let t0 = strip response_text;
          t1 = (if startswith t0 (py ''```json'') then drop 7 t0 else t0);
          t2 = (if startswith t1 (py ''```'') then drop 3 t1 else t1);
          t3 = (if endswith t2 (py ''```'') then take (length t2 - 3) t2 else t2)
      in strip t3)"

text \<open>
  Cleaning and decoding together: what the \<open>try\<close> block does with the completion once
  the service has answered. A completion that is \<open>None\<close> has no \<open>strip\<close>.
\<close>

definition parse_response :: "env \<Rightarrow> pystr option \<Rightarrow> exn + json" where
  "parse_response w content =
     (case content of
        None \<Rightarrow> Inl (AttributeError JNull)
      | Some response_text \<Rightarrow> json_loads w (clean_response response_text))"

definition generate_questions_with_azure ::
  "env \<Rightarrow> pystr \<Rightarrow> int \<Rightarrow> int \<Rightarrow> int \<Rightarrow> (exn + json) \<times> event list" where
  "generate_questions_with_azure w text num_mcq num_short num_blanks =
     (let p = prompt text num_mcq num_short num_blanks;
          body = (case chat_completion w system_message p of
                    Inl e \<Rightarrow> Inl e
                  | Inr content \<Rightarrow> parse_response w content)
      in ((case body of
             Inr questions_data \<Rightarrow> Inr questions_data
           | Inl (JSONDecodeError m) \<Rightarrow>
               Inl (HTTPException 500
                     (py ''Failed to parse AI response: '' @ str_exc w (JSONDecodeError m)))
           | Inl e \<Rightarrow> Inl (HTTPException 500 (py ''Azure OpenAI error: '' @ str_exc w e))),
          [ChatCompletion system_message p]))"

section \<open>Shaping the decoded document into models\<close>

text \<open>\<open>d.get(k, [])\<close>: only a \<open>dict\<close> has \<open>get\<close>.\<close>

fun get_list :: "json \<Rightarrow> pystr \<Rightarrow> exn + json" where
  "get_list (JDict kvs) k = Inr (case map_of kvs k of None \<Rightarrow> JList [] | Some v \<Rightarrow> v)"
| "get_list v k = Inl (AttributeError v)"

text \<open>
  \<open>for q in v\<close>: a list yields its elements, a string its characters, a dict its keys;
  nothing else is iterable.
\<close>

fun iterate :: "json \<Rightarrow> exn + json list" where
  "iterate (JList xs) = Inr xs"
| "iterate (JStr s) = Inr (map (\<lambda>c. JStr [c]) s)"
| "iterate (JDict kvs) = Inr (map (\<lambda>kv. JStr (fst kv)) kvs)"
| "iterate v = Inl (TypeError v)"

text \<open>\<open>Model(**q)\<close>: only a mapping can be unpacked into keyword arguments.\<close>

fun construct :: "((pystr \<times> json) list \<Rightarrow> exn + 'a) \<Rightarrow> json \<Rightarrow> exn + 'a" where
  "construct init (JDict kw) = init kw"
| "construct init v = Inl (TypeError v)"

text \<open>The list comprehension: the first record that fails ends it.\<close>

fun construct_each :: "((pystr \<times> json) list \<Rightarrow> exn + 'a) \<Rightarrow> json list \<Rightarrow> exn + 'a list" where
  "construct_each init [] = Inr []"
| "construct_each init (q # qs) =
     (case construct init q of
        Inl e \<Rightarrow> Inl e
      | Inr m \<Rightarrow> (case construct_each init qs of Inl e \<Rightarrow> Inl e | Inr ms \<Rightarrow> Inr (m # ms)))"

definition comprehension ::
  "((pystr \<times> json) list \<Rightarrow> exn + 'a) \<Rightarrow> json \<Rightarrow> pystr \<Rightarrow> exn + 'a list" where
  "comprehension init questions_data k =
     (case get_list questions_data k of
        Inl e \<Rightarrow> Inl e
      | Inr v \<Rightarrow> (case iterate v of Inl e \<Rightarrow> Inl e | Inr qs \<Rightarrow> construct_each init qs))"

text \<open>Lines 210 to 223 of \<open>generate_quiz\<close> (\<open># Parse into models\<close> and the response).\<close>

definition parse_into_models :: "json \<Rightarrow> pystr \<Rightarrow> exn + QuizResponse" where
  "parse_into_models questions_data fname =
     (case comprehension MCQQuestion_init questions_data (py ''mcq'') of
        Inl e \<Rightarrow> Inl e
      | Inr mcq \<Rightarrow>
     (case comprehension ShortAnswerQuestion_init questions_data (py ''short_answer'') of
        Inl e \<Rightarrow> Inl e
      | Inr short \<Rightarrow>
     (case comprehension FillInTheBlank_init questions_data (py ''fill_in_the_blanks'') of
        Inl e \<Rightarrow> Inl e
      | Inr blank \<Rightarrow>
          (let total = int (length mcq) + int (length short) + int (length blank)
           in Inr \<lparr>success = True,
                   message = py ''Successfully generated '' @ str_int total @
                             py '' questions from '' @ fname,
                   mcq_questions = mcq,
                   short_answer_questions = short,
                   fill_in_the_blanks = blank,
                   total_questions = total\<rparr>))))"

section \<open>The request handler\<close>

text \<open>
  The upload as the handler sees it: its name, a string, and the bytes that
  \<open>await file.read()\<close> returns. The three counts arrive as integers; their range
  \<open>1..10\<close> is checked by the framework before the handler runs.
\<close>

record UploadFile =
  filename :: pystr
  file_bytes :: pybytes

text \<open>The body of the \<open>try\<close> block of \<open>generate_quiz\<close>.\<close>

definition generate_quiz_body ::
  "env \<Rightarrow> UploadFile \<Rightarrow> int \<Rightarrow> int \<Rightarrow> int \<Rightarrow> (exn + QuizResponse) \<times> event list" where
  "generate_quiz_body w file num_mcq num_short_answer num_fill_blanks =
     (if \<not> endswith (filename file) (py ''.pdf'')
      then (Inl (HTTPException 400 (py ''Only PDF files are allowed'')), [])
      else
        let pdf_bytes = file_bytes file in
        if length pdf_bytes > 10 * 1024 * 1024
        then (Inl (HTTPException 400 (py ''File too large. Max 10MB'')), [FileRead])
        else
          (case extract_text_from_pdf w pdf_bytes of
             (Inl e, ev1) \<Rightarrow> (Inl e, FileRead # ev1)
           | (Inr text, ev1) \<Rightarrow>
               if length text < 100
               then (Inl (HTTPException 400
                           (py ''PDF text too short. Need at least 100 characters'')),
                     FileRead # ev1)
               else
                 (case generate_questions_with_azure w text num_mcq num_short_answer
                         num_fill_blanks of
                    (Inl e, ev2) \<Rightarrow> (Inl e, FileRead # ev1 @ ev2)
                  | (Inr questions_data, ev2) \<Rightarrow>
                      (parse_into_models questions_data (filename file),
                       FileRead # ev1 @ ev2))))"

text \<open>The two \<open>except\<close> clauses: an \<open>HTTPException\<close> passes, anything else becomes a 500.\<close>

definition generate_quiz ::
  "env \<Rightarrow> UploadFile \<Rightarrow> int \<Rightarrow> int \<Rightarrow> int \<Rightarrow> (exn + QuizResponse) \<times> event list" where
  "generate_quiz w file num_mcq num_short_answer num_fill_blanks =
     (case generate_quiz_body w file num_mcq num_short_answer num_fill_blanks of
        (Inr r, ev) \<Rightarrow> (Inr r, ev)
      | (Inl (HTTPException c d), ev) \<Rightarrow> (Inl (HTTPException c d), ev)
      | (Inl e, ev) \<Rightarrow> (Inl (HTTPException 500 (py ''Error: '' @ str_exc w e)), ev))"

section \<open>The catch-all exception handler\<close>

record JSONResponse =
  status_code :: int
  content :: "(pystr \<times> json) list"

definition global_exception_handler :: "env \<Rightarrow> 'r \<Rightarrow> exn \<Rightarrow> JSONResponse" where
  "global_exception_handler w request exc =
     \<lparr>status_code = 500,
      content = [(py ''success'', JBool False),
                 (py ''message'', JStr (py ''Internal server error'')),
                 (py ''error'', JStr (str_exc w exc))]\<rparr>"

section \<open>Notions used in the statements\<close>

text \<open>Lower-casing of the ASCII letters, to speak of a name's extension in another case.\<close>

definition lower_ascii :: "nat \<Rightarrow> nat" where
  "lower_ascii c = (if 65 \<le> c \<and> c \<le> 90 then c + 32 else c)"

text \<open>
  Stand-ins for the libraries: a PDF library that returns the given pages, a model that
  answers with the given completion, a decoder that knows one text and its document and
  rejects every other text, and a rendering of exceptions.
\<close>

fun demo_str :: "exn \<Rightarrow> pystr" where
  "demo_str (HTTPException c d) = d"
| "demo_str (JSONDecodeError m) = m"
| "demo_str (ValidationError n kw) = n"
| "demo_str (TypeError v) = py ''TypeError''"
| "demo_str (AttributeError v) = py ''AttributeError''"
| "demo_str (OtherException m) = m"

definition demo_env :: "pystr list \<Rightarrow> pystr \<Rightarrow> pystr \<Rightarrow> json \<Rightarrow> env" where
  "demo_env pages completion json_text doc =
     \<lparr>pdf_page_texts = (\<lambda>b. Inr pages),
      chat_completion = (\<lambda>s p. Inr (Some completion)),
      json_loads = (\<lambda>t. if t = json_text then Inr doc else Inl (JSONDecodeError t)),
      str_exc = demo_str\<rparr>"

text \<open>
  A decoded record read against the model declarations: a \<open>str\<close> field must be present
  and a string, a \<open>List[str]\<close> field present and a list of strings, an optional field
  absent, \<open>None\<close> or a string. A record that is not \<open>ok\<close> therefore lacks a required
  field or has a field of the wrong shape.
\<close>

fun is_str :: "json \<Rightarrow> bool" where
  "is_str (JStr s) = True"
| "is_str _ = False"

definition str_field :: "(pystr \<times> json) list \<Rightarrow> pystr \<Rightarrow> bool" where
  "str_field kw k = (case map_of kw k of None \<Rightarrow> False | Some v \<Rightarrow> is_str v)"

definition str_list_field :: "(pystr \<times> json) list \<Rightarrow> pystr \<Rightarrow> bool" where
  "str_list_field kw k =
     (case map_of kw k of Some (JList xs) \<Rightarrow> list_all is_str xs | _ \<Rightarrow> False)"

definition optional_str_field :: "(pystr \<times> json) list \<Rightarrow> pystr \<Rightarrow> bool" where
  "optional_str_field kw k =
     (case map_of kw k of None \<Rightarrow> True | Some JNull \<Rightarrow> True | Some v \<Rightarrow> is_str v)"

definition mcq_record_ok :: "(pystr \<times> json) list \<Rightarrow> bool" where
  "mcq_record_ok kw \<longleftrightarrow>
     str_field kw (py ''question'') \<and> str_list_field kw (py ''options'') \<and>
     str_field kw (py ''correct_answer'') \<and> optional_str_field kw (py ''explanation'')"

definition short_record_ok :: "(pystr \<times> json) list \<Rightarrow> bool" where
  "short_record_ok kw \<longleftrightarrow>
     str_field kw (py ''question'') \<and> str_field kw (py ''expected_answer'')"

definition blank_record_ok :: "(pystr \<times> json) list \<Rightarrow> bool" where
  "blank_record_ok kw \<longleftrightarrow>
     str_field kw (py ''question'') \<and> str_field kw (py ''answer'') \<and>
     optional_str_field kw (py ''hint'')"

text \<open>
  The records of one of the three lists of the expected document: the document is a
  \<open>dict\<close>, and the list is absent or a list of \<open>dict\<close>s.
\<close>

fun dicts_of :: "json list \<Rightarrow> (pystr \<times> json) list list option" where
  "dicts_of [] = Some []"
| "dicts_of (JDict kw # qs) = map_option ((#) kw) (dicts_of qs)"
| "dicts_of (_ # qs) = None"

fun records :: "json \<Rightarrow> pystr \<Rightarrow> (pystr \<times> json) list list option" where
  "records (JDict kvs) k =
     (case map_of kvs k of None \<Rightarrow> Some [] | Some (JList qs) \<Rightarrow> dicts_of qs | Some _ \<Rightarrow> None)"
| "records _ k = None"

text \<open>A request and two model answers used to exercise the statements.\<close>

definition demo_file :: UploadFile where
  "demo_file = \<lparr>filename = py ''paris.pdf'', file_bytes = [37, 80, 68, 70]\<rparr>"

definition demo_pages :: "pystr list" where
  "demo_pages =
     [py ''Paris is the capital of France. It lies on the river Seine. '',
      py '' The Louvre in Paris is the largest art museum in the world.'']"

definition demo_text :: pystr where
  "demo_text =
     py ''Paris is the capital of France. It lies on the river Seine. \<newline> The Louvre in Paris is the largest art museum in the world.''"

definition good_json :: pystr where
  \<open>good_json = py ''{"mcq": [{"question": "What is the capital of France?", "options": ["A) Paris", "B) Rome"], "correct_answer": "A"}], "short_answer": [{"question": "Where does Paris lie?", "expected_answer": "On the Seine."}], "fill_in_the_blanks": [{"question": "The _____ is in Paris.", "answer": "Louvre", "hint": null}]}''\<close>

definition good_mcq :: "(pystr \<times> json) list" where
  "good_mcq =
     [(py ''question'', JStr (py ''What is the capital of France?'')),
      (py ''options'', JList [JStr (py ''A) Paris''), JStr (py ''B) Rome'')]),
      (py ''correct_answer'', JStr (py ''A''))]"

definition good_short :: "(pystr \<times> json) list" where
  "good_short =
     [(py ''question'', JStr (py ''Where does Paris lie?'')),
      (py ''expected_answer'', JStr (py ''On the Seine.''))]"

definition good_blank :: "(pystr \<times> json) list" where
  "good_blank =
     [(py ''question'', JStr (py ''The _____ is in Paris.'')),
      (py ''answer'', JStr (py ''Louvre'')),
      (py ''hint'', JNull)]"

definition good_doc :: json where
  "good_doc =
     JDict [(py ''mcq'', JList [JDict good_mcq]),
            (py ''short_answer'', JList [JDict good_short]),
            (py ''fill_in_the_blanks'', JList [JDict good_blank])]"

definition bad_json :: pystr where
  \<open>bad_json = py ''{"mcq": [{"question": "What is the capital of France?", "options": ["A) Paris", "B) Rome"]}]}''\<close>

definition bad_mcq :: "(pystr \<times> json) list" where
  "bad_mcq =
     [(py ''question'', JStr (py ''What is the capital of France?'')),
      (py ''options'', JList [JStr (py ''A) Paris''), JStr (py ''B) Rome'')])]"

definition bad_doc :: json where
  "bad_doc = JDict [(py ''mcq'', JList [JDict bad_mcq])]"

text \<open>A completion as models often send it: in a fence tagged \<open>json\<close>, on lines of its own.\<close>

definition fenced :: "pystr \<Rightarrow> pystr" where
  "fenced s = py ''```json\<newline>'' @ s @ py ''\<newline>```''"

section \<open>The extension and size gates\<close>

lemma endswith_append_same_length:
  "length ext = length p \<Longrightarrow> endswith (base @ ext) p \<longleftrightarrow> ext = p"
  by (auto simp: endswith_def)

lemma generate_quiz_not_pdf:
  "\<not> endswith (filename file) (py ''.pdf'') \<Longrightarrow>
   generate_quiz w file a b c = (Inl (HTTPException 400 (py ''Only PDF files are allowed'')), [])"
  by (simp add: generate_quiz_def generate_quiz_body_def)

text \<open>
  Claim C7. A request whose filename does not end in \<open>.pdf\<close> is rejected with the 400
  "Only PDF files are allowed", and no call has left the handler by then: the event log is
  empty, so neither the upload has been read nor the PDF library invoked.
\<close>

theorem non_pdf_rejected_before_extraction:
  assumes "\<not> endswith (filename file) (py ''.pdf'')"
  shows "generate_quiz w file num_mcq num_short_answer num_fill_blanks =
           (Inl (HTTPException 400 (py ''Only PDF files are allowed'')), []) \<and>
         (\<forall>b. PdfRead b \<notin> set (snd (generate_quiz w file num_mcq num_short_answer num_fill_blanks)))"
  using assms by (simp add: generate_quiz_not_pdf)

theorem non_pdf_rejected_before_extraction_witness:
  "\<not> endswith (filename \<lparr>filename = py ''notes.txt'', file_bytes = [37, 80]\<rparr>) (py ''.pdf'') \<and>
   generate_quiz (demo_env [] [] [] JNull) \<lparr>filename = py ''notes.txt'', file_bytes = [37, 80]\<rparr> 5 3 3 =
     (Inl (HTTPException 400 (py ''Only PDF files are allowed'')), [])"
proof -
  have h: "\<not> endswith (filename \<lparr>filename = py ''notes.txt'', file_bytes = [37, 80]\<rparr>) (py ''.pdf'')"
    by (simp add: endswith_def py_def)
  show ?thesis
    using h non_pdf_rejected_before_extraction [OF h, of "demo_env [] [] [] JNull" 5 3 3] by simp
qed

text \<open>
  Claim C10. The test is \<open>endswith('.pdf')\<close> on the name as given: a name whose last four
  characters are \<open>.pdf\<close> in some other letter case (\<open>.PDF\<close>, \<open>.Pdf\<close>, ...) is rejected
  with the same 400, before anything is read.
\<close>

theorem uppercase_extension_rejected:
  assumes "map lower_ascii ext = py ''.pdf''" and "ext \<noteq> py ''.pdf''"
  shows "generate_quiz w \<lparr>filename = base @ ext, file_bytes = b\<rparr> num_mcq num_short_answer
           num_fill_blanks =
         (Inl (HTTPException 400 (py ''Only PDF files are allowed'')), [])"
proof -
  have "length (map lower_ascii ext) = length (py ''.pdf'')"
    using assms(1) by simp
  then have "length ext = length (py ''.pdf'')" by simp
  then have "\<not> endswith (base @ ext) (py ''.pdf'')"
    using assms(2) by (simp add: endswith_append_same_length)
  then show ?thesis by (simp add: generate_quiz_not_pdf)
qed

theorem uppercase_extension_rejected_witness:
  "map lower_ascii (py ''.PDF'') = py ''.pdf'' \<and> py ''.PDF'' \<noteq> py ''.pdf'' \<and>
   generate_quiz (demo_env [] [] [] JNull)
     \<lparr>filename = py ''REPORT'' @ py ''.PDF'', file_bytes = [37, 80]\<rparr> 5 3 3 =
     (Inl (HTTPException 400 (py ''Only PDF files are allowed'')), [])"
proof -
  have h1: "map lower_ascii (py ''.PDF'') = py ''.pdf''"
    by (simp add: py_def lower_ascii_def)
  have h2: "py ''.PDF'' \<noteq> py ''.pdf''"
    by (simp add: py_def)
  show ?thesis
    using h1 h2 uppercase_extension_rejected [OF h1 h2, of "demo_env [] [] [] JNull" "py ''REPORT''" "[37, 80]" 5 3 3]
    by simp
qed

section \<open>The minimum text length\<close>

lemma snd_extract_text_from_pdf: "snd (extract_text_from_pdf w b) = [PdfRead b]"
  by (simp add: extract_text_from_pdf_def)

text \<open>
  Claim C4. When the text extracted from the upload has fewer than 100 characters (the
  empty text included), the handler ends in a 400 and the log holds no call of the model
  service; for a request that passed the extension and size gates the 400 is
  "PDF text too short" and the log is the read and the extraction only.
\<close>

theorem short_text_rejected_without_model_call:
  assumes "fst (extract_text_from_pdf w (file_bytes file)) = Inr text" and "length text < 100"
  shows "(\<exists>d. fst (generate_quiz w file num_mcq num_short_answer num_fill_blanks) =
               Inl (HTTPException 400 d)) \<and>
         (\<forall>s p. ChatCompletion s p \<notin>
               set (snd (generate_quiz w file num_mcq num_short_answer num_fill_blanks))) \<and>
         (endswith (filename file) (py ''.pdf'') \<and> length (file_bytes file) \<le> 10 * 1024 * 1024 \<longrightarrow>
            generate_quiz w file num_mcq num_short_answer num_fill_blanks =
              (Inl (HTTPException 400 (py ''PDF text too short. Need at least 100 characters'')),
               [FileRead, PdfRead (file_bytes file)]))"
proof -
  obtain ev where ex: "extract_text_from_pdf w (file_bytes file) = (Inr text, ev)"
    using assms(1) by (cases "extract_text_from_pdf w (file_bytes file)") simp
  have ev: "ev = [PdfRead (file_bytes file)]"
    using snd_extract_text_from_pdf [of w "file_bytes file"] ex by simp
  show ?thesis
    using assms(2) ex ev
    by (simp add: generate_quiz_def generate_quiz_body_def Let_def)
qed


theorem short_text_rejected_without_model_call_witness:
  "fst (extract_text_from_pdf (demo_env [py ''  Too short. ''] [] [] JNull)
          (file_bytes \<lparr>filename = py ''a.pdf'', file_bytes = [37, 80]\<rparr>)) = Inr (py ''Too short.'') \<and>
   length (py ''Too short.'') < 100 \<and>
   endswith (filename \<lparr>filename = py ''a.pdf'', file_bytes = [37, 80]\<rparr>) (py ''.pdf'') \<and>
   length (file_bytes \<lparr>filename = py ''a.pdf'', file_bytes = [37, 80]\<rparr>) \<le> 10 * 1024 * 1024 \<and>
   generate_quiz (demo_env [py ''  Too short. ''] [] [] JNull)
       \<lparr>filename = py ''a.pdf'', file_bytes = [37, 80]\<rparr> 5 3 3 =
     (Inl (HTTPException 400 (py ''PDF text too short. Need at least 100 characters'')),
      [FileRead, PdfRead [37, 80]])"
proof -
  have h1: "fst (extract_text_from_pdf (demo_env [py ''  Too short. ''] [] [] JNull)
          (file_bytes \<lparr>filename = py ''a.pdf'', file_bytes = [37, 80]\<rparr>)) = Inr (py ''Too short.'')"
    by (simp add: extract_text_from_pdf_def demo_env_def strip_def py_def isspace_def)
  have h2: "length (py ''Too short.'') < 100"
    by (simp add: py_def)
  have h3: "endswith (filename \<lparr>filename = py ''a.pdf'', file_bytes = [37, 80]\<rparr>) (py ''.pdf'')"
    by (simp add: endswith_def py_def)
  show ?thesis
    using h1 h2 h3
      short_text_rejected_without_model_call [OF h1 h2, of 5 3 3]
    by simp
qed

lemma generate_quiz_too_large:
  assumes "endswith (filename file) (py ''.pdf'')" and "10 * 1024 * 1024 < length (file_bytes file)"
  shows "generate_quiz w file a b c =
           (Inl (HTTPException 400 (py ''File too large. Max 10MB'')), [FileRead])"
  using assms by (simp add: generate_quiz_def generate_quiz_body_def)

lemma generate_quiz_body_reaches_extraction:
  assumes "endswith (filename file) (py ''.pdf'')" and "length (file_bytes file) \<le> 10 * 1024 * 1024"
  shows "take 2 (snd (generate_quiz_body w file a b c)) = [FileRead, PdfRead (file_bytes file)]"
proof -
  obtain r where ex: "extract_text_from_pdf w (file_bytes file) = (r, [PdfRead (file_bytes file)])"
    by (simp add: extract_text_from_pdf_def)
  show ?thesis
    using assms ex
    by (simp add: generate_quiz_body_def Let_def split: sum.splits prod.splits)
qed

lemma snd_generate_quiz: "snd (generate_quiz w file a b c) = snd (generate_quiz_body w file a b c)"
  by (simp add: generate_quiz_def split: prod.splits sum.splits exn.splits)

text \<open>
  Claim C6. An upload of exactly \<open>10 * 1024 * 1024\<close> bytes passes the size test (the next
  event after reading it is the PDF extraction of those bytes); an upload of one byte more
  is rejected with the 400 "File too large. Max 10MB" right after the read.
\<close>

theorem size_cap_boundary:
  assumes "endswith (filename f) (py ''.pdf'')" and "length (file_bytes f) = 10 * 1024 * 1024"
    and "endswith (filename g) (py ''.pdf'')" and "length (file_bytes g) = 10 * 1024 * 1024 + 1"
  shows "take 2 (snd (generate_quiz w f num_mcq num_short_answer num_fill_blanks)) =
           [FileRead, PdfRead (file_bytes f)] \<and>
         generate_quiz w g num_mcq num_short_answer num_fill_blanks =
           (Inl (HTTPException 400 (py ''File too large. Max 10MB'')), [FileRead])"
proof -
  have "take 2 (snd (generate_quiz w f num_mcq num_short_answer num_fill_blanks)) =
           [FileRead, PdfRead (file_bytes f)]"
    using assms(1,2) by (simp add: snd_generate_quiz generate_quiz_body_reaches_extraction)
  moreover have "generate_quiz w g num_mcq num_short_answer num_fill_blanks =
           (Inl (HTTPException 400 (py ''File too large. Max 10MB'')), [FileRead])"
    using assms(3,4) by (simp add: generate_quiz_too_large)
  ultimately show ?thesis by simp
qed

theorem size_cap_boundary_witness:
  "endswith (filename \<lparr>filename = py ''a.pdf'', file_bytes = replicate (10 * 1024 * 1024) 0\<rparr>) (py ''.pdf'') \<and>
   length (file_bytes \<lparr>filename = py ''a.pdf'', file_bytes = replicate (10 * 1024 * 1024) 0\<rparr>) = 10 * 1024 * 1024 \<and>
   endswith (filename \<lparr>filename = py ''b.pdf'', file_bytes = replicate (10 * 1024 * 1024 + 1) 0\<rparr>) (py ''.pdf'') \<and>
   length (file_bytes \<lparr>filename = py ''b.pdf'', file_bytes = replicate (10 * 1024 * 1024 + 1) 0\<rparr>) = 10 * 1024 * 1024 + 1 \<and>
   take 2 (snd (generate_quiz (demo_env [] [] [] JNull)
       \<lparr>filename = py ''a.pdf'', file_bytes = replicate (10 * 1024 * 1024) 0\<rparr> 5 3 3)) =
     [FileRead, PdfRead (replicate (10 * 1024 * 1024) 0)] \<and>
   generate_quiz (demo_env [] [] [] JNull)
       \<lparr>filename = py ''b.pdf'', file_bytes = replicate (10 * 1024 * 1024 + 1) 0\<rparr> 5 3 3 =
     (Inl (HTTPException 400 (py ''File too large. Max 10MB'')), [FileRead])"
proof -
  have h1: "endswith (filename \<lparr>filename = py ''a.pdf'', file_bytes = replicate (10 * 1024 * 1024) 0\<rparr>) (py ''.pdf'')"
    by (simp add: endswith_def py_def)
  have h2: "length (file_bytes \<lparr>filename = py ''a.pdf'', file_bytes = replicate (10 * 1024 * 1024) 0\<rparr>) = 10 * 1024 * 1024"
    by simp
  have h3: "endswith (filename \<lparr>filename = py ''b.pdf'', file_bytes = replicate (10 * 1024 * 1024 + 1) 0\<rparr>) (py ''.pdf'')"
    by (simp add: endswith_def py_def)
  have h4: "length (file_bytes \<lparr>filename = py ''b.pdf'', file_bytes = replicate (10 * 1024 * 1024 + 1) 0\<rparr>) = 10 * 1024 * 1024 + 1"
    by simp
  show ?thesis
    using h1 h3 size_cap_boundary [OF h1 h2 h3 h4, of "demo_env [] [] [] JNull" 5 3 3]
    by simp
qed

section \<open>The prompt\<close>

lemma sublist_concat_nth:
  assumes "k < length L" and "sublist x (L ! k)"
  shows "sublist x (concat L)"
proof -
  have "L = take k L @ (L ! k) # drop (Suc k) L"
    using assms(1) by (simp add: id_take_nth_drop)
  then have "concat L = concat (take k L) @ (L ! k) @ concat (drop (Suc k) L)"
    by (metis concat.simps(2) concat_append)
  then have "sublist (L ! k) (concat L)"
    by (metis sublist_appendI)
  with assms(2) show ?thesis
    by (meson sublist_order.order.trans)
qed

lemma sublist_concat_slice:
  assumes "concat (take n (drop k L)) = x @ r"
  shows "sublist x (concat L)"
proof -
  have "L = take k L @ take n (drop k L) @ drop n (drop k L)"
    by (simp only: append_take_drop_id)
  then have "concat L = concat (take k L) @ (x @ r) @ concat (drop n (drop k L))"
    using assms by (metis concat_append)
  then have "concat L = concat (take k L) @ x @ (r @ concat (drop n (drop k L)))"
    by simp
  then show ?thesis
    by (metis sublist_appendI)
qed

lemma prompt_truncates:
  "prompt text a b c = prompt (take 8000 text) a b c"
  by (simp add: prompt_def)

lemma prompt_inserts:
  "prompt text a b c = take 76 (prompt [] a b c) @ take 8000 text @ drop 76 (prompt [] a b c)"
  by (simp add: prompt_def py_def)

lemma prompt_length:
  "length (prompt text a b c) = length (prompt [] a b c) + min 8000 (length text)"
  by (simp add: prompt_def)

text \<open>
  Claim C8. Whatever the text and the three counts, the prompt is the prompt for the
  empty text with the first 8000 characters of the text put in after the 76 characters
  of its heading: the text is embedded unchanged, and nothing of it beyond 8000
  characters reaches the prompt (so the prompt is that of the truncated text, and
  its length exceeds the fixed part by at most 8000). The prompt contains each count in
  decimal inside its numbered line ("1. n Multiple Choice Questions (MCQ)" and so on),
  and every field name of the schema as a quoted key.
\<close>

theorem prompt_contents:
  \<open>prompt text num_mcq num_short num_blanks =
     take 76 (prompt [] num_mcq num_short num_blanks) @ take 8000 text @
     drop 76 (prompt [] num_mcq num_short num_blanks) \<and>
   prompt text num_mcq num_short num_blanks =
     prompt (take 8000 text) num_mcq num_short num_blanks \<and>
   length (prompt text num_mcq num_short num_blanks) =
     length (prompt [] num_mcq num_short num_blanks) + min 8000 (length text) \<and>
   sublist (take 8000 text) (prompt text num_mcq num_short num_blanks) \<and>
   sublist (py ''1. '' @ str_int num_mcq @ py '' Multiple Choice Questions (MCQ)'')
     (prompt text num_mcq num_short num_blanks) \<and>
   sublist (py ''2. '' @ str_int num_short @ py '' Short Answer Questions'')
     (prompt text num_mcq num_short num_blanks) \<and>
   sublist (py ''3. '' @ str_int num_blanks @ py '' Fill in the Blank Questions'')
     (prompt text num_mcq num_short num_blanks) \<and>
   sublist (py ''"mcq"'') (prompt text num_mcq num_short num_blanks) \<and>
   sublist (py ''"short_answer"'') (prompt text num_mcq num_short num_blanks) \<and>
   sublist (py ''"fill_in_the_blanks"'') (prompt text num_mcq num_short num_blanks) \<and>
   sublist (py ''"question"'') (prompt text num_mcq num_short num_blanks) \<and>
   sublist (py ''"options"'') (prompt text num_mcq num_short num_blanks) \<and>
   sublist (py ''"correct_answer"'') (prompt text num_mcq num_short num_blanks) \<and>
   sublist (py ''"explanation"'') (prompt text num_mcq num_short num_blanks) \<and>
   sublist (py ''"expected_answer"'') (prompt text num_mcq num_short num_blanks) \<and>
   sublist (py ''"answer"'') (prompt text num_mcq num_short num_blanks) \<and>
   sublist (py ''"hint"'') (prompt text num_mcq num_short num_blanks)\<close>
proof -
  let ?P = "prompt text num_mcq num_short num_blanks"
  have t: "sublist (take 8000 text) ?P"
    unfolding prompt_def by (rule sublist_concat_nth [where k = 3]) simp_all
  have n1: "sublist (py ''1. '' @ str_int num_mcq @ py '' Multiple Choice Questions (MCQ)'') ?P"
    unfolding prompt_def
    by (rule sublist_concat_slice [where k = 7 and n = 3 and r = "py ''\<newline>''"])
       (simp add: py_def)
  have n2: "sublist (py ''2. '' @ str_int num_short @ py '' Short Answer Questions'') ?P"
    unfolding prompt_def
    by (rule sublist_concat_slice [where k = 10 and n = 3 and r = "py ''\<newline>''"])
       (simp add: py_def)
  have n3: "sublist (py ''3. '' @ str_int num_blanks @ py '' Fill in the Blank Questions'') ?P"
    unfolding prompt_def
    by (rule sublist_concat_slice [where k = 13 and n = 3 and r = "py ''\<newline>''"])
       (simp add: py_def)
  have f1: \<open>sublist (py ''"mcq"'') ?P\<close>
    unfolding prompt_def
    by (rule sublist_concat_nth [where k = 19]) (simp_all add: py_def sublist_Cons_right)
  have f2: \<open>sublist (py ''"short_answer"'') ?P\<close>
    unfolding prompt_def
    by (rule sublist_concat_nth [where k = 27]) (simp_all add: py_def sublist_Cons_right)
  have f3: \<open>sublist (py ''"fill_in_the_blanks"'') ?P\<close>
    unfolding prompt_def
    by (rule sublist_concat_nth [where k = 33]) (simp_all add: py_def sublist_Cons_right)
  have f4: \<open>sublist (py ''"question"'') ?P\<close>
    unfolding prompt_def
    by (rule sublist_concat_nth [where k = 21]) (simp_all add: py_def sublist_Cons_right)
  have f5: \<open>sublist (py ''"options"'') ?P\<close>
    unfolding prompt_def
    by (rule sublist_concat_nth [where k = 22]) (simp_all add: py_def sublist_Cons_right)
  have f6: \<open>sublist (py ''"correct_answer"'') ?P\<close>
    unfolding prompt_def
    by (rule sublist_concat_nth [where k = 23]) (simp_all add: py_def sublist_Cons_right)
  have f7: \<open>sublist (py ''"explanation"'') ?P\<close>
    unfolding prompt_def
    by (rule sublist_concat_nth [where k = 24]) (simp_all add: py_def sublist_Cons_right)
  have f8: \<open>sublist (py ''"expected_answer"'') ?P\<close>
    unfolding prompt_def
    by (rule sublist_concat_nth [where k = 30]) (simp_all add: py_def sublist_Cons_right)
  have f9: \<open>sublist (py ''"answer"'') ?P\<close>
    unfolding prompt_def
    by (rule sublist_concat_nth [where k = 36]) (simp_all add: py_def sublist_Cons_right)
  have f10: \<open>sublist (py ''"hint"'') ?P\<close>
    unfolding prompt_def
    by (rule sublist_concat_nth [where k = 37]) (simp_all add: py_def sublist_Cons_right)
  have ins: "?P = take 76 (prompt [] num_mcq num_short num_blanks) @ take 8000 text @
      drop 76 (prompt [] num_mcq num_short num_blanks)"
    by (rule prompt_inserts)
  have tr: "?P = prompt (take 8000 text) num_mcq num_short num_blanks"
    by (rule prompt_truncates)
  have len: "length ?P = length (prompt [] num_mcq num_short num_blanks) + min 8000 (length text)"
    by (rule prompt_length)
  from ins tr len t n1 n2 n3 f1 f2 f3 f4 f5 f6 f7 f8 f9 f10 show ?thesis
    by blast
qed

section \<open>Building the response from the decoded document\<close>

lemma those_validate_str:
  "list_all is_str xs \<Longrightarrow> \<exists>ss. those (map validate_str xs) = Some ss"
proof (induction xs)
  case Nil
  then show ?case by simp
next
  case (Cons x xs)
  then show ?case by (cases x) auto
qed

lemma those_validate_str_None:
  "\<not> list_all is_str xs \<Longrightarrow> those (map validate_str xs) = None"
proof (induction xs)
  case Nil
  then show ?case by simp
next
  case (Cons x xs)
  then show ?case by (cases x) (auto split: option.splits)
qed

lemma validate_str_iff: "is_str v \<longleftrightarrow> (\<exists>s. validate_str v = Some s)"
  by (cases v) simp_all

lemma str_field_iff: "str_field kw k \<longleftrightarrow> (\<exists>s. required kw k validate_str = Some s)"
  by (simp add: required_def str_field_def validate_str_iff split: option.splits)

lemma str_list_field_iff:
  "str_list_field kw k \<longleftrightarrow> (\<exists>ss. required kw k validate_list_str = Some ss)"
proof (cases "map_of kw k")
  case None
  then show ?thesis by (simp add: required_def str_list_field_def)
next
  case (Some v)
  show ?thesis
  proof (cases "\<exists>xs. v = JList xs")
    case True
    then obtain xs where v: "v = JList xs" by blast
    show ?thesis
    proof (cases "list_all is_str xs")
      case True
      then show ?thesis
        using Some v those_validate_str [of xs]
        by (simp add: required_def str_list_field_def)
    next
      case False
      then show ?thesis
        using Some v those_validate_str_None [of xs]
        by (simp add: required_def str_list_field_def)
    qed
  next
    case False
    then show ?thesis
      using Some by (cases v) (simp_all add: required_def str_list_field_def)
  qed
qed

lemma optional_str_field_iff:
  "optional_str_field kw k \<longleftrightarrow> (\<exists>s. validate_optional_str (map_of kw k) = Some s)"
proof (cases "map_of kw k")
  case None
  then show ?thesis by (simp add: optional_str_field_def)
next
  case (Some v)
  then show ?thesis by (cases v) (simp_all add: optional_str_field_def)
qed

lemma MCQQuestion_init_ok: "mcq_record_ok kw \<Longrightarrow> \<exists>m. MCQQuestion_init kw = Inr m"
  by (auto simp: mcq_record_ok_def MCQQuestion_init_def str_field_iff str_list_field_iff
      optional_str_field_iff)

lemma MCQQuestion_init_bad:
  "\<not> mcq_record_ok kw \<Longrightarrow> MCQQuestion_init kw = Inl (ValidationError (py ''MCQQuestion'') kw)"
  by (auto simp: mcq_record_ok_def MCQQuestion_init_def str_field_iff str_list_field_iff
      optional_str_field_iff split: option.splits)

lemma ShortAnswerQuestion_init_ok:
  "short_record_ok kw \<Longrightarrow> \<exists>m. ShortAnswerQuestion_init kw = Inr m"
  by (auto simp: short_record_ok_def ShortAnswerQuestion_init_def str_field_iff)

lemma ShortAnswerQuestion_init_bad:
  "\<not> short_record_ok kw \<Longrightarrow>
   ShortAnswerQuestion_init kw = Inl (ValidationError (py ''ShortAnswerQuestion'') kw)"
  by (auto simp: short_record_ok_def ShortAnswerQuestion_init_def str_field_iff
      split: option.splits)

lemma FillInTheBlank_init_ok: "blank_record_ok kw \<Longrightarrow> \<exists>m. FillInTheBlank_init kw = Inr m"
  by (auto simp: blank_record_ok_def FillInTheBlank_init_def str_field_iff
      optional_str_field_iff)

lemma FillInTheBlank_init_bad:
  "\<not> blank_record_ok kw \<Longrightarrow>
   FillInTheBlank_init kw = Inl (ValidationError (py ''FillInTheBlank'') kw)"
  by (auto simp: blank_record_ok_def FillInTheBlank_init_def str_field_iff
      optional_str_field_iff split: option.splits)

lemma dicts_of_map: "dicts_of qs = Some kws \<Longrightarrow> qs = map JDict kws"
proof (induction qs arbitrary: kws rule: dicts_of.induct)
  case 1
  then show ?case by simp
next
  case (2 kw qs)
  then show ?case by auto
qed simp_all

lemma construct_each_ok:
  assumes "\<And>kw. ok kw \<Longrightarrow> \<exists>m. init kw = Inr m" and "list_all ok kws"
  shows "\<exists>ms. construct_each init (map JDict kws) = Inr ms \<and> length ms = length kws"
  using assms(2)
proof (induction kws)
  case Nil
  then show ?case by simp
next
  case (Cons kw kws)
  then obtain ms where ms: "construct_each init (map JDict kws) = Inr ms" "length ms = length kws"
    by auto
  from Cons.prems obtain m where "init kw = Inr m"
    using assms(1) by auto
  with ms show ?case by simp
qed

lemma construct_each_bad:
  assumes "\<And>kw. ok kw \<Longrightarrow> \<exists>m. init kw = Inr m"
    and "\<And>kw. \<not> ok kw \<Longrightarrow> init kw = Inl (ValidationError name kw)"
    and "\<not> list_all ok kws"
  shows "\<exists>kw. construct_each init (map JDict kws) = Inl (ValidationError name kw)"
  using assms(3)
proof (induction kws)
  case Nil
  then show ?case by simp
next
  case (Cons kw kws)
  show ?case
  proof (cases "ok kw")
    case False
    then show ?thesis using assms(2) by auto
  next
    case True
    then obtain m where m: "init kw = Inr m" using assms(1) by auto
    from True Cons.prems have "\<not> list_all ok kws" by simp
    then obtain kw' where "construct_each init (map JDict kws) = Inl (ValidationError name kw')"
      using Cons.IH by auto
    with m show ?thesis by auto
  qed
qed

lemma comprehension_records:
  "records d k = Some kws \<Longrightarrow> comprehension init d k = construct_each init (map JDict kws)"
  by (cases d) (auto simp: comprehension_def dest: dicts_of_map split: option.splits json.splits)

lemma comprehension_missing:
  "map_of kvs k = None \<Longrightarrow> comprehension init (JDict kvs) k = Inr []"
  by (simp add: comprehension_def)

lemma parse_into_models_fields:
  assumes "parse_into_models d fname = Inr r"
  shows "comprehension MCQQuestion_init d (py ''mcq'') = Inr (mcq_questions r) \<and>
         comprehension ShortAnswerQuestion_init d (py ''short_answer'') =
           Inr (short_answer_questions r) \<and>
         comprehension FillInTheBlank_init d (py ''fill_in_the_blanks'') =
           Inr (fill_in_the_blanks r) \<and>
         success r \<and>
         total_questions r = int (length (mcq_questions r)) +
           int (length (short_answer_questions r)) + int (length (fill_in_the_blanks r))"
  using assms
  by (auto simp: parse_into_models_def Let_def split: sum.splits)

text \<open>
  Claim C9. When the decoded document is a \<open>dict\<close> without the key of one of the three
  lists, the comprehension for that list yields the empty list and raises nothing, so the
  corresponding collection of any response built is empty; when all three keys are
  missing the response is built, with three empty collections and a total of 0.
\<close>

theorem missing_lists_default_to_empty:
  "(map_of kvs (py ''mcq'') = None \<longrightarrow>
      comprehension MCQQuestion_init (JDict kvs) (py ''mcq'') = Inr [] \<and>
      (\<forall>r. parse_into_models (JDict kvs) fname = Inr r \<longrightarrow> mcq_questions r = [])) \<and>
   (map_of kvs (py ''short_answer'') = None \<longrightarrow>
      comprehension ShortAnswerQuestion_init (JDict kvs) (py ''short_answer'') = Inr [] \<and>
      (\<forall>r. parse_into_models (JDict kvs) fname = Inr r \<longrightarrow> short_answer_questions r = [])) \<and>
   (map_of kvs (py ''fill_in_the_blanks'') = None \<longrightarrow>
      comprehension FillInTheBlank_init (JDict kvs) (py ''fill_in_the_blanks'') = Inr [] \<and>
      (\<forall>r. parse_into_models (JDict kvs) fname = Inr r \<longrightarrow> fill_in_the_blanks r = [])) \<and>
   (map_of kvs (py ''mcq'') = None \<and> map_of kvs (py ''short_answer'') = None \<and>
    map_of kvs (py ''fill_in_the_blanks'') = None \<longrightarrow>
      parse_into_models (JDict kvs) fname =
        Inr \<lparr>success = True,
             message = py ''Successfully generated '' @ str_int 0 @ py '' questions from '' @ fname,
             mcq_questions = [], short_answer_questions = [], fill_in_the_blanks = [],
             total_questions = 0\<rparr>)"
proof -
  have a: "mcq_questions r = []"
    if "map_of kvs (py ''mcq'') = None" "parse_into_models (JDict kvs) fname = Inr r" for r
    using that parse_into_models_fields [of "JDict kvs" fname r]
    by (simp add: comprehension_missing)
  have b: "short_answer_questions r = []"
    if "map_of kvs (py ''short_answer'') = None" "parse_into_models (JDict kvs) fname = Inr r" for r
    using that parse_into_models_fields [of "JDict kvs" fname r]
    by (simp add: comprehension_missing)
  have c: "fill_in_the_blanks r = []"
    if "map_of kvs (py ''fill_in_the_blanks'') = None" "parse_into_models (JDict kvs) fname = Inr r" for r
    using that parse_into_models_fields [of "JDict kvs" fname r]
    by (simp add: comprehension_missing)
  have d: "parse_into_models (JDict kvs) fname =
        Inr \<lparr>success = True,
             message = py ''Successfully generated '' @ str_int 0 @ py '' questions from '' @ fname,
             mcq_questions = [], short_answer_questions = [], fill_in_the_blanks = [],
             total_questions = 0\<rparr>"
    if "map_of kvs (py ''mcq'') = None" "map_of kvs (py ''short_answer'') = None"
      "map_of kvs (py ''fill_in_the_blanks'') = None"
    using that by (simp add: parse_into_models_def comprehension_missing)
  show ?thesis
    using a b c d by (simp add: comprehension_missing)
qed

theorem missing_lists_default_to_empty_witness:
  "map_of [(py ''title'', JStr (py ''Quiz''))] (py ''mcq'') = None \<and>
   map_of [(py ''title'', JStr (py ''Quiz''))] (py ''short_answer'') = None \<and>
   map_of [(py ''title'', JStr (py ''Quiz''))] (py ''fill_in_the_blanks'') = None \<and>
   comprehension MCQQuestion_init (JDict [(py ''title'', JStr (py ''Quiz''))]) (py ''mcq'') = Inr [] \<and>
   comprehension ShortAnswerQuestion_init (JDict [(py ''title'', JStr (py ''Quiz''))])
     (py ''short_answer'') = Inr [] \<and>
   comprehension FillInTheBlank_init (JDict [(py ''title'', JStr (py ''Quiz''))])
     (py ''fill_in_the_blanks'') = Inr [] \<and>
   parse_into_models (JDict [(py ''title'', JStr (py ''Quiz''))]) (py ''a.pdf'') =
     Inr \<lparr>success = True,
          message = py ''Successfully generated '' @ str_int 0 @ py '' questions from '' @ py ''a.pdf'',
          mcq_questions = [], short_answer_questions = [], fill_in_the_blanks = [],
          total_questions = 0\<rparr>"
proof -
  have h1: "map_of [(py ''title'', JStr (py ''Quiz''))] (py ''mcq'') = None"
    by (simp add: py_def)
  have h2: "map_of [(py ''title'', JStr (py ''Quiz''))] (py ''short_answer'') = None"
    by (simp add: py_def)
  have h3: "map_of [(py ''title'', JStr (py ''Quiz''))] (py ''fill_in_the_blanks'') = None"
    by (simp add: py_def)
  show ?thesis
    using h1 h2 h3
      missing_lists_default_to_empty [of "[(py ''title'', JStr (py ''Quiz''))]" "py ''a.pdf''"]
    by simp
qed

lemma generate_quiz_body_reaches_models:
  assumes "endswith (filename file) (py ''.pdf'')"
    and "length (file_bytes file) \<le> 10 * 1024 * 1024"
    and "fst (extract_text_from_pdf w (file_bytes file)) = Inr text"
    and "100 \<le> length text"
    and "chat_completion w system_message (prompt text a b c) = Inr (Some response_text)"
    and "json_loads w (clean_response response_text) = Inr d"
  shows "generate_quiz_body w file a b c =
           (parse_into_models d (filename file),
            [FileRead, PdfRead (file_bytes file), ChatCompletion system_message (prompt text a b c)])"
proof -
  have ex: "extract_text_from_pdf w (file_bytes file) = (Inr text, [PdfRead (file_bytes file)])"
    using assms(3) by (cases "extract_text_from_pdf w (file_bytes file)")
      (simp add: extract_text_from_pdf_def)
  have gen: "generate_questions_with_azure w text a b c =
      (Inr d, [ChatCompletion system_message (prompt text a b c)])"
    using assms(5,6) by (simp add: generate_questions_with_azure_def parse_response_def Let_def)
  show ?thesis
    using assms(1,2,4) ex gen by (simp add: generate_quiz_body_def Let_def)
qed

lemma parse_into_models_ok:
  assumes "records d (py ''mcq'') = Some ms" and "records d (py ''short_answer'') = Some ss"
    and "records d (py ''fill_in_the_blanks'') = Some bs"
    and "list_all mcq_record_ok ms" and "list_all short_record_ok ss"
    and "list_all blank_record_ok bs"
  shows "\<exists>r. parse_into_models d fname = Inr r \<and> length (mcq_questions r) = length ms \<and>
           length (short_answer_questions r) = length ss \<and> length (fill_in_the_blanks r) = length bs"
proof -
  obtain m where m: "comprehension MCQQuestion_init d (py ''mcq'') = Inr m" "length m = length ms"
    using construct_each_ok [of mcq_record_ok MCQQuestion_init ms] MCQQuestion_init_ok assms(1,4)
    by (auto simp: comprehension_records)
  obtain s where s: "comprehension ShortAnswerQuestion_init d (py ''short_answer'') = Inr s"
      "length s = length ss"
    using construct_each_ok [of short_record_ok ShortAnswerQuestion_init ss]
      ShortAnswerQuestion_init_ok assms(2,5)
    by (auto simp: comprehension_records)
  obtain b where b: "comprehension FillInTheBlank_init d (py ''fill_in_the_blanks'') = Inr b"
      "length b = length bs"
    using construct_each_ok [of blank_record_ok FillInTheBlank_init bs]
      FillInTheBlank_init_ok assms(3,6)
    by (auto simp: comprehension_records)
  show ?thesis
    by (simp add: parse_into_models_def m s b Let_def)
qed

lemma parse_into_models_bad:
  assumes "records d (py ''mcq'') = Some ms" and "records d (py ''short_answer'') = Some ss"
    and "records d (py ''fill_in_the_blanks'') = Some bs"
    and "\<not> (list_all mcq_record_ok ms \<and> list_all short_record_ok ss \<and> list_all blank_record_ok bs)"
  shows "\<exists>name kw. parse_into_models d fname = Inl (ValidationError name kw)"
proof (cases "list_all mcq_record_ok ms")
  case False
  then obtain kw where
    "comprehension MCQQuestion_init d (py ''mcq'') = Inl (ValidationError (py ''MCQQuestion'') kw)"
    using construct_each_bad [of mcq_record_ok MCQQuestion_init "py ''MCQQuestion''" ms]
      MCQQuestion_init_ok MCQQuestion_init_bad assms(1)
    by (auto simp: comprehension_records)
  then show ?thesis by (simp add: parse_into_models_def)
next
  case True
  then obtain m where m: "comprehension MCQQuestion_init d (py ''mcq'') = Inr m"
    using construct_each_ok [of mcq_record_ok MCQQuestion_init ms] MCQQuestion_init_ok assms(1)
    by (auto simp: comprehension_records)
  show ?thesis
  proof (cases "list_all short_record_ok ss")
    case False
    then obtain kw where
      "comprehension ShortAnswerQuestion_init d (py ''short_answer'') =
         Inl (ValidationError (py ''ShortAnswerQuestion'') kw)"
      using construct_each_bad [of short_record_ok ShortAnswerQuestion_init
          "py ''ShortAnswerQuestion''" ss]
        ShortAnswerQuestion_init_ok ShortAnswerQuestion_init_bad assms(2)
      by (auto simp: comprehension_records)
    then show ?thesis by (simp add: parse_into_models_def m)
  next
    case sTrue: True
    then obtain s where s: "comprehension ShortAnswerQuestion_init d (py ''short_answer'') = Inr s"
      using construct_each_ok [of short_record_ok ShortAnswerQuestion_init ss]
        ShortAnswerQuestion_init_ok assms(2)
      by (auto simp: comprehension_records)
    from True sTrue assms(4) have "\<not> list_all blank_record_ok bs" by simp
    then obtain kw where
      "comprehension FillInTheBlank_init d (py ''fill_in_the_blanks'') =
         Inl (ValidationError (py ''FillInTheBlank'') kw)"
      using construct_each_bad [of blank_record_ok FillInTheBlank_init "py ''FillInTheBlank''" bs]
        FillInTheBlank_init_ok FillInTheBlank_init_bad assms(3)
      by (auto simp: comprehension_records)
    then show ?thesis by (simp add: parse_into_models_def m s)
  qed
qed

text \<open>
  Claim C1. For an upload that passes the extension and size gates and yields at least
  100 characters of text, if the model answers and the cleaned answer decodes to a
  document whose three lists hold only well-formed records, then the handler returns a
  response with \<open>success\<close> true whose \<open>total_questions\<close> is the sum of the lengths of its
  three collections (each as long as the list it was built from).
\<close>

theorem well_formed_response_total:
  assumes "endswith (filename file) (py ''.pdf'')"
    and "length (file_bytes file) \<le> 10 * 1024 * 1024"
    and "fst (extract_text_from_pdf w (file_bytes file)) = Inr text"
    and "100 \<le> length text"
    and "chat_completion w system_message (prompt text num_mcq num_short_answer num_fill_blanks) =
           Inr (Some response_text)"
    and "json_loads w (clean_response response_text) = Inr questions_data"
    and "records questions_data (py ''mcq'') = Some ms"
    and "records questions_data (py ''short_answer'') = Some ss"
    and "records questions_data (py ''fill_in_the_blanks'') = Some bs"
    and "list_all mcq_record_ok ms" and "list_all short_record_ok ss"
    and "list_all blank_record_ok bs"
  shows "\<exists>r. fst (generate_quiz w file num_mcq num_short_answer num_fill_blanks) = Inr r \<and>
           success r \<and>
           total_questions r = int (length (mcq_questions r)) +
             int (length (short_answer_questions r)) + int (length (fill_in_the_blanks r)) \<and>
           length (mcq_questions r) = length ms \<and>
           length (short_answer_questions r) = length ss \<and>
           length (fill_in_the_blanks r) = length bs"
proof -
  obtain r where r: "parse_into_models questions_data (filename file) = Inr r"
      "length (mcq_questions r) = length ms" "length (short_answer_questions r) = length ss"
      "length (fill_in_the_blanks r) = length bs"
    using parse_into_models_ok [OF assms(7-12)] by blast
  have "fst (generate_quiz w file num_mcq num_short_answer num_fill_blanks) = Inr r"
    using generate_quiz_body_reaches_models [OF assms(1-6)] r(1)
    by (simp add: generate_quiz_def)
  then show ?thesis
    using r parse_into_models_fields [OF r(1)] by simp
qed

text \<open>
  Claim C5. In the same situation, if the decoded document has the expected structure
  but some record lacks a required field or has a field of the wrong shape, the model
  construction raises a \<open>ValidationError\<close> inside the handler, and the handler returns
  it as the \<open>HTTPException\<close> 500 "Error: ..." rather than letting it escape.
\<close>

theorem defective_record_is_500:
  assumes "endswith (filename file) (py ''.pdf'')"
    and "length (file_bytes file) \<le> 10 * 1024 * 1024"
    and "fst (extract_text_from_pdf w (file_bytes file)) = Inr text"
    and "100 \<le> length text"
    and "chat_completion w system_message (prompt text num_mcq num_short_answer num_fill_blanks) =
           Inr (Some response_text)"
    and "json_loads w (clean_response response_text) = Inr questions_data"
    and "records questions_data (py ''mcq'') = Some ms"
    and "records questions_data (py ''short_answer'') = Some ss"
    and "records questions_data (py ''fill_in_the_blanks'') = Some bs"
    and "\<not> (list_all mcq_record_ok ms \<and> list_all short_record_ok ss \<and> list_all blank_record_ok bs)"
  shows "\<exists>name kw.
           fst (generate_quiz_body w file num_mcq num_short_answer num_fill_blanks) =
             Inl (ValidationError name kw) \<and>
           fst (generate_quiz w file num_mcq num_short_answer num_fill_blanks) =
             Inl (HTTPException 500 (py ''Error: '' @ str_exc w (ValidationError name kw)))"
proof -
  obtain name kw where
    e: "parse_into_models questions_data (filename file) = Inl (ValidationError name kw)"
    using parse_into_models_bad [OF assms(7-10)] by blast
  have body: "fst (generate_quiz_body w file num_mcq num_short_answer num_fill_blanks) =
      Inl (ValidationError name kw)"
    using generate_quiz_body_reaches_models [OF assms(1-6)] e by simp
  then have "fst (generate_quiz w file num_mcq num_short_answer num_fill_blanks) =
      Inl (HTTPException 500 (py ''Error: '' @ str_exc w (ValidationError name kw)))"
    by (cases "generate_quiz_body w file num_mcq num_short_answer num_fill_blanks")
      (simp add: generate_quiz_def)
  with body show ?thesis by blast
qed

lemma demo_file_is_pdf: "endswith (filename demo_file) (py ''.pdf'')"
  by (simp add: demo_file_def endswith_def py_def)

lemma demo_file_small: "length (file_bytes demo_file) \<le> 10 * 1024 * 1024"
  by (simp add: demo_file_def)

lemma demo_file_text: "fst (extract_text_from_pdf (demo_env demo_pages c j d) (file_bytes demo_file)) = Inr demo_text"
  by (simp add: extract_text_from_pdf_def demo_env_def demo_pages_def demo_text_def strip_def
      py_def isspace_def)

lemma demo_text_long: "100 \<le> length demo_text"
  by (simp add: demo_text_def py_def)

lemma demo_clean_good: "clean_response (fenced good_json) = good_json"
  by (simp add: clean_response_def fenced_def good_json_def strip_def startswith_def endswith_def
      py_def isspace_def Let_def)

lemma demo_clean_bad: "clean_response (fenced bad_json) = bad_json"
  by (simp add: clean_response_def fenced_def bad_json_def strip_def startswith_def endswith_def
      py_def isspace_def Let_def)

lemma good_records:
  "records good_doc (py ''mcq'') = Some [good_mcq]"
  "records good_doc (py ''short_answer'') = Some [good_short]"
  "records good_doc (py ''fill_in_the_blanks'') = Some [good_blank]"
  by (simp_all add: good_doc_def py_def)

lemma good_ok: "list_all mcq_record_ok [good_mcq]" "list_all short_record_ok [good_short]"
  "list_all blank_record_ok [good_blank]"
  by (simp_all add: mcq_record_ok_def short_record_ok_def blank_record_ok_def good_mcq_def
      good_short_def good_blank_def str_field_def str_list_field_def optional_str_field_def py_def)

lemma bad_records:
  "records bad_doc (py ''mcq'') = Some [bad_mcq]"
  "records bad_doc (py ''short_answer'') = Some []"
  "records bad_doc (py ''fill_in_the_blanks'') = Some []"
  by (simp_all add: bad_doc_def py_def)

lemma bad_not_ok: "\<not> (list_all mcq_record_ok [bad_mcq] \<and> list_all short_record_ok [] \<and> list_all blank_record_ok [])"
  by (simp add: mcq_record_ok_def bad_mcq_def str_field_def py_def)


theorem well_formed_response_total_witness:
  "endswith (filename demo_file) (py ''.pdf'') \<and>
   length (file_bytes demo_file) \<le> 10 * 1024 * 1024 \<and>
   fst (extract_text_from_pdf (demo_env demo_pages (fenced good_json) good_json good_doc)
          (file_bytes demo_file)) = Inr demo_text \<and>
   100 \<le> length demo_text \<and>
   chat_completion (demo_env demo_pages (fenced good_json) good_json good_doc) system_message
     (prompt demo_text 1 1 1) = Inr (Some (fenced good_json)) \<and>
   json_loads (demo_env demo_pages (fenced good_json) good_json good_doc)
     (clean_response (fenced good_json)) = Inr good_doc \<and>
   records good_doc (py ''mcq'') = Some [good_mcq] \<and>
   records good_doc (py ''short_answer'') = Some [good_short] \<and>
   records good_doc (py ''fill_in_the_blanks'') = Some [good_blank] \<and>
   list_all mcq_record_ok [good_mcq] \<and> list_all short_record_ok [good_short] \<and>
   list_all blank_record_ok [good_blank] \<and>
   (\<exists>r. fst (generate_quiz (demo_env demo_pages (fenced good_json) good_json good_doc)
               demo_file 1 1 1) = Inr r \<and>
        success r \<and> total_questions r = 3 \<and> length (mcq_questions r) = 1 \<and>
        length (short_answer_questions r) = 1 \<and> length (fill_in_the_blanks r) = 1)"
proof -
  let ?w = "demo_env demo_pages (fenced good_json) good_json good_doc"
  have h5: "chat_completion ?w system_message (prompt demo_text 1 1 1) =
      Inr (Some (fenced good_json))"
    by (simp add: demo_env_def)
  have h6: "json_loads ?w (clean_response (fenced good_json)) = Inr good_doc"
    by (simp add: demo_env_def demo_clean_good)
  obtain r where "fst (generate_quiz ?w demo_file 1 1 1) = Inr r" "success r"
     "total_questions r = int (length (mcq_questions r)) +
        int (length (short_answer_questions r)) + int (length (fill_in_the_blanks r))"
     "length (mcq_questions r) = length [good_mcq]"
     "length (short_answer_questions r) = length [good_short]"
     "length (fill_in_the_blanks r) = length [good_blank]"
    using well_formed_response_total [OF demo_file_is_pdf demo_file_small demo_file_text demo_text_long h5 h6 good_records good_ok]
    by blast
  then have "\<exists>r. fst (generate_quiz ?w demo_file 1 1 1) = Inr r \<and>
        success r \<and> total_questions r = 3 \<and> length (mcq_questions r) = 1 \<and>
        length (short_answer_questions r) = 1 \<and> length (fill_in_the_blanks r) = 1"
    by auto
  then show ?thesis
    using demo_file_is_pdf demo_file_small demo_file_text demo_text_long h5 h6 good_records good_ok by blast
qed

theorem defective_record_is_500_witness:
  "endswith (filename demo_file) (py ''.pdf'') \<and>
   length (file_bytes demo_file) \<le> 10 * 1024 * 1024 \<and>
   fst (extract_text_from_pdf (demo_env demo_pages (fenced bad_json) bad_json bad_doc)
          (file_bytes demo_file)) = Inr demo_text \<and>
   100 \<le> length demo_text \<and>
   chat_completion (demo_env demo_pages (fenced bad_json) bad_json bad_doc) system_message
     (prompt demo_text 1 1 1) = Inr (Some (fenced bad_json)) \<and>
   json_loads (demo_env demo_pages (fenced bad_json) bad_json bad_doc)
     (clean_response (fenced bad_json)) = Inr bad_doc \<and>
   records bad_doc (py ''mcq'') = Some [bad_mcq] \<and>
   records bad_doc (py ''short_answer'') = Some [] \<and>
   records bad_doc (py ''fill_in_the_blanks'') = Some [] \<and>
   map_of bad_mcq (py ''correct_answer'') = None \<and>
   \<not> (list_all mcq_record_ok [bad_mcq] \<and> list_all short_record_ok [] \<and>
      list_all blank_record_ok []) \<and>
   (\<exists>name kw.
      fst (generate_quiz_body (demo_env demo_pages (fenced bad_json) bad_json bad_doc)
             demo_file 1 1 1) = Inl (ValidationError name kw) \<and>
      fst (generate_quiz (demo_env demo_pages (fenced bad_json) bad_json bad_doc)
             demo_file 1 1 1) = Inl (HTTPException 500 (py ''Error: '' @ name)))"
proof -
  let ?w = "demo_env demo_pages (fenced bad_json) bad_json bad_doc"
  have h5: "chat_completion ?w system_message (prompt demo_text 1 1 1) =
      Inr (Some (fenced bad_json))"
    by (simp add: demo_env_def)
  have h6: "json_loads ?w (clean_response (fenced bad_json)) = Inr bad_doc"
    by (simp add: demo_env_def demo_clean_bad)
  have h7: "map_of bad_mcq (py ''correct_answer'') = None"
    by (simp add: bad_mcq_def py_def)
  have str: "str_exc ?w (ValidationError name kw) = name" for name kw
    by (simp add: demo_env_def)
  have "\<exists>name kw.
      fst (generate_quiz_body ?w demo_file 1 1 1) = Inl (ValidationError name kw) \<and>
      fst (generate_quiz ?w demo_file 1 1 1) = Inl (HTTPException 500 (py ''Error: '' @ name))"
    using defective_record_is_500 [OF demo_file_is_pdf demo_file_small demo_file_text demo_text_long h5 h6 bad_records bad_not_ok]
    by (simp add: str)
  then show ?thesis
    using demo_file_is_pdf demo_file_small demo_file_text demo_text_long h5 h6 h7 bad_records bad_not_ok by blast
qed

section \<open>Cleaning the completion\<close>

text \<open>Facts about \<open>strip\<close>, \<open>startswith\<close> and \<open>endswith\<close>.\<close>

lemma dropWhile_ws_append: "list_all isspace a \<Longrightarrow> dropWhile isspace (a @ x) = dropWhile isspace x"
  by (simp add: dropWhile_append2 list_all_iff)

lemma strip_pad:
  assumes "list_all isspace a" and "list_all isspace d"
  shows "strip (a @ x @ d) = strip x"
proof (cases "list_all isspace x")
  case True
  then have "dropWhile isspace x = []"
    by (auto simp: list_all_iff dropWhile_eq_Nil_conv)
  moreover have "dropWhile isspace (a @ x @ d) = []"
    using assms True by (auto simp: list_all_iff dropWhile_eq_Nil_conv)
  ultimately show ?thesis by (simp only: strip_def)
next
  case False
  then obtain y where y: "y \<in> set x" "\<not> isspace y" by (auto simp: list_all_iff)
  have "dropWhile isspace (a @ x @ d) = dropWhile isspace x @ d"
    using assms(1) y by (simp add: dropWhile_ws_append dropWhile_append1)
  moreover have "list_all isspace (rev d)" using assms(2) by (simp add: list_all_iff)
  ultimately show ?thesis
    by (simp add: strip_def dropWhile_ws_append)
qed

lemma dropWhile_hd_id: "zs \<noteq> [] \<Longrightarrow> \<not> P (hd zs) \<Longrightarrow> dropWhile P zs = zs"
  by (cases zs) simp_all

lemma strip_fixed:
  assumes "x = [] \<or> (\<not> isspace (hd x) \<and> \<not> isspace (last x))"
  shows "strip x = x"
proof (cases x)
  case Nil
  then show ?thesis by (simp add: strip_def)
next
  case (Cons y ys)
  with assms have h: "\<not> isspace (hd x)" "\<not> isspace (last x)" by auto
  have ne: "x \<noteq> []" using Cons by simp
  have "dropWhile isspace x = x" using ne h(1) by (rule dropWhile_hd_id)
  moreover have "dropWhile isspace (rev x) = rev x"
    using h(2) ne by (intro dropWhile_hd_id) (simp_all add: hd_rev)
  ultimately show ?thesis by (simp add: strip_def)
qed

lemma strip_ends:
  assumes "strip x \<noteq> []"
  shows "\<not> isspace (hd (strip x)) \<and> \<not> isspace (last (strip x))"
proof -
  let ?y = "dropWhile isspace x"
  let ?z = "dropWhile isspace (rev ?y)"
  have z: "?z \<noteq> []" using assms by (simp add: strip_def)
  have y: "?y \<noteq> []"
  proof
    assume "?y = []"
    then have "?z = []" by (simp only: rev.simps dropWhile.simps)
    with z show False by blast
  qed
  have l: "\<not> isspace (hd ?z)" using z by (rule hd_dropWhile)
  have hy: "\<not> isspace (hd ?y)" using y by (rule hd_dropWhile)
  have "\<not> isspace (last (rev ?y))" using hy y by (simp add: last_rev)
  obtain p where p: "rev ?y = p @ ?z"
    by (metis takeWhile_dropWhile_id)
  have "last ?z = last (rev ?y)" using p z by (metis last_appendR)
  then have "last ?z = hd ?y" using y by (simp add: last_rev)
  then have "hd (rev ?z) = hd ?y" using z by (simp add: hd_rev)
  moreover have "last (rev ?z) = hd ?z" using z by (simp add: last_rev)
  ultimately show ?thesis using l hy by (simp add: strip_def)
qed

lemma strip_idem: "strip (strip x) = strip x"
  using strip_ends [of x] by (intro strip_fixed) blast

lemma strip_decomp: "\<exists>l r. s = l @ strip s @ r \<and> list_all isspace l \<and> list_all isspace r"
proof -
  let ?y = "dropWhile isspace s"
  let ?z = "dropWhile isspace (rev ?y)"
  have 1: "s = takeWhile isspace s @ ?y" by simp
  have "rev ?y = takeWhile isspace (rev ?y) @ ?z" by simp
  then have "rev (rev ?y) = rev (takeWhile isspace (rev ?y) @ ?z)" by simp
  then have 2: "?y = rev ?z @ rev (takeWhile isspace (rev ?y))"
    by (simp only: rev_rev_ident rev_append)
  have "s = takeWhile isspace s @ strip s @ rev (takeWhile isspace (rev ?y))"
    using 1 2 by (metis strip_def)
  moreover have "list_all isspace (takeWhile isspace s)"
    by (simp add: list_all_iff) (meson set_takeWhileD)
  moreover have "list_all isspace (rev (takeWhile isspace (rev ?y)))"
    by (simp add: list_all_iff) (meson set_takeWhileD)
  ultimately show ?thesis by blast
qed

lemma fence_code: "py ''```'' = [96, 96, 96]" "py ''```json'' = [96, 96, 96] @ py ''json''"
  "py ''json'' = [106, 115, 111, 110]"
  by (simp_all add: py_def)

lemma not_space_fence: "\<not> isspace 96" "x \<in> set (py ''json'') \<Longrightarrow> \<not> isspace x \<and> x \<noteq> 96"
  by (auto simp: isspace_def py_def)

lemma startswith_append_same: "startswith (p @ r) p"
  by (simp add: startswith_def)

lemma startswith_append_cancel: "startswith (p @ r) (p @ q) \<longleftrightarrow> startswith r q"
  by (simp add: startswith_def)

lemma endswith_append_same: "endswith (r @ p) p"
  by (simp add: endswith_def)

lemma startswith_longer: "startswith s (p @ q) \<Longrightarrow> startswith s p"
proof -
  assume "startswith s (p @ q)"
  then have "take (length p + length q) s = p @ q" by (simp add: startswith_def)
  then have "take (length p) (take (length p + length q) s) = take (length p) (p @ q)" by simp
  then show ?thesis by (simp add: startswith_def min_def)
qed

text \<open>A prefix test that succeeds on \<open>s @ r\<close> but not on \<open>s\<close> reads into \<open>r\<close>.\<close>

lemma startswith_reads_on:
  assumes "startswith (s @ r) p" and "\<not> startswith s p"
  shows "length s < length p \<and> r \<noteq> [] \<and> hd r = p ! length s \<and> s = take (length s) p"
proof -
  have t: "take (length p) (s @ r) = p" using assms(1) by (simp add: startswith_def)
  have short: "length s < length p"
  proof (rule ccontr)
    assume "\<not> length s < length p"
    then have "take (length p) (s @ r) = take (length p) s" by simp
    with t assms(2) show False by (simp add: startswith_def)
  qed
  then have p: "p = s @ take (length p - length s) r" using t by simp
  have r: "r \<noteq> []"
  proof
    assume "r = []"
    with p have "p = s" by simp
    with assms(2) show False by (simp add: startswith_def)
  qed
  have "take (length p - length s) r \<noteq> []" using r short by simp
  then have "(s @ take (length p - length s) r) ! length s = hd (take (length p - length s) r)"
    by (simp add: nth_append hd_conv_nth)
  also have "\<dots> = hd r" using short by (simp add: hd_take)
  finally have "hd r = p ! length s" using p by simp
  moreover have "s = take (length s) p"
    by (subst p) simp
  ultimately show ?thesis using short r by simp
qed

lemma startswith_after_space:
  assumes "B \<noteq> []" and "list_all isspace B" and "p \<noteq> []" and "\<not> isspace (hd p)"
  shows "\<not> startswith (B @ X) p"
proof
  assume "startswith (B @ X) p"
  then have "take (length p) (B @ X) = p" by (simp add: startswith_def)
  then have "hd (take (length p) (B @ X)) = hd p" by simp
  then have "hd B = hd p" using assms(1,3) by (simp add: hd_take hd_append)
  moreover have "isspace (hd B)" using assms(1,2) by (cases B) simp_all
  ultimately show False using assms(4) by simp
qed

lemma hd_space_or_fence:
  assumes "list_all isspace c"
  shows "isspace (hd (c @ py ''```'')) \<or> hd (c @ py ''```'') = 96"
  using assms by (cases c) (simp_all add: fence_code)

lemma no_json_after_fence:
  assumes "list_all isspace b" and "list_all isspace c"
    and "b = [] \<longrightarrow> \<not> startswith s (py ''json'')"
  shows "\<not> startswith (b @ s @ c @ py ''```'') (py ''json'')"
proof (cases "b = []")
  case False
  then show ?thesis
    using assms(1) by (intro startswith_after_space) (simp_all add: fence_code isspace_def)
next
  case True
  show ?thesis
  proof
    assume "startswith (b @ s @ c @ py ''```'') (py ''json'')"
    then have "startswith (s @ (c @ py ''```'')) (py ''json'')" using True by simp
    moreover have "\<not> startswith s (py ''json'')" using True assms(3) by simp
    ultimately have "length s < length (py ''json'')"
      "hd (c @ py ''```'') = py ''json'' ! length s"
      using startswith_reads_on by blast+
    then have "hd (c @ py ''```'') \<in> set (py ''json'')" by simp
    then have "\<not> isspace (hd (c @ py ''```'')) \<and> hd (c @ py ''```'') \<noteq> 96"
      by (rule not_space_fence(2))
    with hd_space_or_fence [OF assms(2)] show False by blast
  qed
qed

lemma fence_after_fence:
  assumes "list_all isspace B" and "list_all isspace C"
    and "\<not> startswith t (py ''```'')"
    and "t = [] \<or> \<not> isspace (hd t)"
    and "startswith (B @ t @ C @ py ''```'') (py ''```'')"
  shows "B = [] \<and> C = [] \<and> length t < 3 \<and> drop 3 (t @ py ''```'') = t"
proof -
  have B: "B = []"
  proof (rule ccontr)
    assume "B \<noteq> []"
    then have "\<not> startswith (B @ t @ C @ py ''```'') (py ''```'')"
      using assms(1) by (intro startswith_after_space) (simp_all add: fence_code isspace_def)
    with assms(5) show False by simp
  qed
  then have "startswith (t @ (C @ py ''```'')) (py ''```'')" using assms(5) by simp
  then have r: "length t < length (py ''```'')"
    "hd (C @ py ''```'') = py ''```'' ! length t" "t = take (length t) (py ''```'')"
    using startswith_reads_on assms(3) by blast+
  have len: "length t < 3" using r(1) by (simp add: fence_code)
  then have "hd (C @ py ''```'') = 96" using r(2)
    by (cases "length t") (auto simp: fence_code nth_Cons split: nat.splits)
  then have C: "C = []"
    using assms(2) not_space_fence(1) by (cases C) auto
  have "t = take (length t) [96, 96, 96]" using r(3) by (simp add: fence_code)
  then have "t = [] \<or> t = [96] \<or> t = [96, 96]"
    using len by (cases "length t") (auto simp: take_Cons split: nat.splits)
  then have "drop 3 (t @ py ''```'') = t"
    by (auto simp: fence_code)
  with B C len show ?thesis by simp
qed

lemma clean_response_unfenced:
  assumes "\<not> startswith (strip s) (py ''```'')" and "\<not> endswith (strip s) (py ''```'')"
  shows "clean_response s = strip s"
proof -
  have "\<not> startswith (strip s) (py ''```json'')"
    using assms(1) startswith_longer [of "strip s" "py ''```''" "py ''json''"]
    by (auto simp: fence_code)
  then show ?thesis
    using assms by (simp add: clean_response_def Let_def strip_idem)
qed

lemma strip_fenced:
  assumes "list_all isspace a" and "list_all isspace d"
  shows "strip (a @ py ''```'' @ x @ py ''```'' @ d) = py ''```'' @ x @ py ''```''"
proof -
  have "strip (a @ (py ''```'' @ x @ py ''```'') @ d) = strip (py ''```'' @ x @ py ''```'')"
    using assms by (rule strip_pad)
  moreover have "strip (py ''```'' @ x @ py ''```'') = py ''```'' @ x @ py ''```''"
    by (rule strip_fixed) (simp add: fence_code isspace_def)
  ultimately show ?thesis by simp
qed

lemma remove_closing_fence:
  "endswith (r @ py ''```'') (py ''```'')"
  "take (length (r @ py ''```'') - 3) (r @ py ''```'') = r"
  by (simp_all add: endswith_def fence_code)

lemma clean_response_steps:
  assumes "strip x = t0"
    and "(if startswith t0 (py ''```json'') then drop 7 t0 else t0) = t1"
    and "(if startswith t1 (py ''```'') then drop 3 t1 else t1) = t2"
    and "(if endswith t2 (py ''```'') then take (length t2 - 3) t2 else t2) = t3"
  shows "clean_response x = strip t3"
  by (simp only: clean_response_def Let_def assms)

lemma clean_response_fenced:
  assumes "list_all isspace a" and "list_all isspace b" and "list_all isspace c"
    and "list_all isspace d"
    and "tag = [] \<or> tag = py ''json''"
    and "\<not> startswith (strip s) (py ''```'')" and "\<not> endswith (strip s) (py ''```'')"
    and "tag = [] \<and> b = [] \<longrightarrow> \<not> startswith s (py ''json'')"
  shows "clean_response (a @ py ''```'' @ tag @ b @ s @ c @ py ''```'' @ d) = strip s"
proof -
  let ?F = "py ''```''"
  let ?R = "b @ s @ c @ ?F"
  have t0: "strip (a @ ?F @ tag @ b @ s @ c @ ?F @ d) = ?F @ tag @ ?R"
    using strip_fenced [OF assms(1,4), of "tag @ b @ s @ c"] by simp
  have R: "endswith ?R ?F" "take (length ?R - 3) ?R = b @ s @ c"
    using remove_closing_fence [of "b @ s @ c"] by simp_all
  have t3: "(if endswith ?R ?F then take (length ?R - 3) ?R else ?R) = b @ s @ c"
    by (simp only: R if_True)
  have fin: "strip (b @ s @ c) = strip s"
    using assms(2,3) by (rule strip_pad)
  from assms(5) show ?thesis
  proof
    assume tag: "tag = []"
    have "\<not> startswith ?R (py ''json'')"
      using assms(2,3,8) tag by (intro no_json_after_fence) simp_all
    then have 1: "\<not> startswith (?F @ ?R) (py ''```json'')"
      using startswith_append_cancel [of ?F ?R "py ''json''"]
      by (simp add: fence_code)
    have 2: "startswith (?F @ ?R) ?F" by (rule startswith_append_same)
    have 3: "drop 3 (?F @ ?R) = ?R" by (simp add: fence_code)
    have t1: "(if startswith (?F @ tag @ ?R) (py ''```json'') then drop 7 (?F @ tag @ ?R)
               else ?F @ tag @ ?R) = ?F @ ?R"
      unfolding tag append_Nil by (simp only: 1 if_False)
    have t2: "(if startswith (?F @ ?R) ?F then drop 3 (?F @ ?R) else ?F @ ?R) = ?R"
      by (simp only: 2 3 if_True)
    show ?thesis
      using clean_response_steps [OF t0 t1 t2 t3] fin by simp
  next
    assume tag: "tag = py ''json''"
    have 1: "startswith (?F @ tag @ ?R) (py ''```json'')"
      using startswith_append_same [of "py ''```json''" ?R] by (simp add: tag fence_code)
    have 2: "drop 7 (?F @ tag @ ?R) = ?R" by (simp add: tag fence_code)
    have t1: "(if startswith (?F @ tag @ ?R) (py ''```json'') then drop 7 (?F @ tag @ ?R)
               else ?F @ tag @ ?R) = ?R"
      by (simp only: 1 2 if_True)
    show ?thesis
    proof (cases "startswith ?R ?F")
      case False
      have t2: "(if startswith ?R ?F then drop 3 ?R else ?R) = ?R"
        by (simp only: False if_False)
      show ?thesis
        using clean_response_steps [OF t0 t1 t2 t3] fin by simp
    next
      case True
      define t where "t = strip s"
      obtain l r where s: "s = l @ t @ r" and l: "list_all isspace l"
        and r: "list_all isspace r"
        using strip_decomp [of s] unfolding t_def by blast
      have Req: "?R = (b @ l) @ t @ (r @ c) @ ?F"
        by (subst s) simp
      have st: "startswith ((b @ l) @ t @ (r @ c) @ ?F) ?F"
        using True by (simp only: Req)
      have e: "t = [] \<or> \<not> isspace (hd t)"
        using strip_ends [of s] unfolding t_def by blast
      have nt: "\<not> startswith t ?F" "\<not> endswith t ?F"
        using assms(6,7) unfolding t_def by simp_all
      have "list_all isspace (b @ l)" "list_all isspace (r @ c)"
        using assms(2,3) l r by simp_all
      from fence_after_fence [OF this nt(1) e st]
      have kk: "b @ l = [] \<and> r @ c = [] \<and> length t < 3 \<and> drop 3 (t @ ?F) = t" .
      then have k: "b = []" "l = []" "r = []" "c = []"
        by simp_all
      have k5: "drop 3 (t @ ?F) = t"
        using kk by blast
      have "?R = t @ ?F"
        unfolding Req by (simp add: k)
      then have 3: "drop 3 ?R = t"
        by (simp only: k5)
      have t2: "(if startswith ?R ?F then drop 3 ?R else ?R) = t"
        by (simp only: True 3 if_True)
      have t3': "(if endswith t ?F then take (length t - 3) t else t) = t"
        by (simp only: nt(2) if_False)
      show ?thesis
        using clean_response_steps [OF t0 t1 t2 t3'] by (simp add: t_def strip_idem)
    qed
  qed
qed

text \<open>
  Claim C3, as the code has it. Let \<open>s\<close> be a completion that is itself without fencing:
  stripped, it neither starts nor ends with \<open>```\<close>. Wrap it in an opening fence, with or
  without the tag \<open>json\<close>, and a closing fence, with any whitespace before, between and
  after; when the opening fence is untagged and \<open>s\<close> follows it immediately, \<open>s\<close> must
  not itself begin with \<open>json\<close>. Then cleaning and decoding the wrapped string gives what
  cleaning and decoding \<open>s\<close> gives, whatever the decoder does.
\<close>

theorem fenced_response_parses_like_unfenced:
  assumes "list_all isspace a" and "list_all isspace b" and "list_all isspace c"
    and "list_all isspace d"
    and "tag = [] \<or> tag = py ''json''"
    and "\<not> startswith (strip s) (py ''```'')" and "\<not> endswith (strip s) (py ''```'')"
    and "tag = [] \<and> b = [] \<longrightarrow> \<not> startswith s (py ''json'')"
  shows "parse_response w (Some (a @ py ''```'' @ tag @ b @ s @ c @ py ''```'' @ d)) =
           parse_response w (Some s)"
  using clean_response_fenced [OF assms] clean_response_unfenced [OF assms(6,7)]
  by (simp add: parse_response_def)

theorem fenced_response_parses_like_unfenced_witness:
  "list_all isspace (py '' '') \<and> list_all isspace (py ''\<newline>'') \<and>
   list_all isspace (py ''\<newline>'') \<and> list_all isspace (py ''\<newline>\<newline>'') \<and>
   \<not> startswith (strip good_json) (py ''```'') \<and> \<not> endswith (strip good_json) (py ''```'') \<and>
   parse_response (demo_env demo_pages (fenced good_json) good_json good_doc)
     (Some (py '' '' @ py ''```'' @ py ''json'' @ py ''\<newline>'' @ good_json @ py ''\<newline>'' @
            py ''```'' @ py ''\<newline>\<newline>'')) = Inr good_doc \<and>
   \<not> startswith good_json (py ''json'') \<and>
   parse_response (demo_env demo_pages (fenced good_json) good_json good_doc)
     (Some (py ''```'' @ good_json @ py ''```'')) = Inr good_doc \<and>
   parse_response (demo_env demo_pages (fenced good_json) good_json good_doc) (Some good_json) =
     Inr good_doc"
proof -
  let ?w = "demo_env demo_pages (fenced good_json) good_json good_doc"
  have ws: "list_all isspace (py '' '')" "list_all isspace (py ''\<newline>'')"
    "list_all isspace (py ''\<newline>\<newline>'')" "list_all isspace []"
    by (simp_all add: py_def isspace_def)
  have sg: "strip good_json = good_json"
    by (rule strip_fixed) (simp add: good_json_def py_def isspace_def)
  have ns: "\<not> startswith (strip good_json) (py ''```'')"
    unfolding sg by (simp add: good_json_def startswith_def py_def)
  have ne: "\<not> endswith (strip good_json) (py ''```'')"
    unfolding sg by (simp add: good_json_def endswith_def py_def)
  have plain: "parse_response ?w (Some good_json) = Inr good_doc"
    using clean_response_unfenced [OF ns ne] sg
    by (simp add: parse_response_def demo_env_def)
  have 1: "parse_response ?w
     (Some (py '' '' @ py ''```'' @ py ''json'' @ py ''\<newline>'' @ good_json @ py ''\<newline>'' @
            py ''```'' @ py ''\<newline>\<newline>'')) = Inr good_doc"
    using fenced_response_parses_like_unfenced [OF ws(1) ws(2) ws(2) ws(3) _ ns ne,
        where tag = "py ''json''" and w = ?w] plain
    by (simp add: py_def)
  have nj: "\<not> startswith good_json (py ''json'')"
    by (simp add: good_json_def startswith_def py_def)
  have 2: "parse_response ?w (Some (py ''```'' @ good_json @ py ''```'')) = Inr good_doc"
    using fenced_response_parses_like_unfenced [OF ws(4) ws(4) ws(4) ws(4) _ ns ne,
        where tag = "[]" and w = ?w] plain nj
    by simp
  show ?thesis
    using ws ns ne nj plain 1 2 by simp
qed

text \<open>
  Without those conditions the statement fails. A completion that is already fenced
  decodes, but wrapped once more (tagged, on lines of its own) only the outer fence is
  removed and decoding fails; and a completion beginning with \<open>json\<close> that does not decode
  does decode once wrapped in untagged fences, because fence and text read as a tagged
  fence. The decoder here accepts \<open>{}\<close> and rejects the other three texts, as
  \<open>json.loads\<close> does.
\<close>

theorem fenced_twice_counterexample:
  \<open>parse_response (demo_env [] [] (py ''{}'') (JDict [])) (Some (py ''```{}```'')) =
     Inr (JDict []) \<and>
   parse_response (demo_env [] [] (py ''{}'') (JDict []))
     (Some (py ''```json'' @ py ''\<newline>'' @ py ''```{}```'' @ py ''\<newline>'' @ py ''```'')) =
     Inl (JSONDecodeError (py ''```{}```'')) \<and>
   parse_response (demo_env [] [] (py ''{}'') (JDict [])) (Some (py ''json{}'')) =
     Inl (JSONDecodeError (py ''json{}'')) \<and>
   parse_response (demo_env [] [] (py ''{}'') (JDict []))
     (Some (py ''```'' @ py ''json{}'' @ py ''```'')) = Inr (JDict [])\<close>
  by (simp add: parse_response_def clean_response_def demo_env_def strip_def startswith_def
      endswith_def py_def isspace_def Let_def)

section \<open>Faults the pipeline has not classified\<close>

lemma MCQQuestion_init_raises:
  "MCQQuestion_init kw = Inl e \<Longrightarrow> e = ValidationError (py ''MCQQuestion'') kw"
  by (auto simp: MCQQuestion_init_def split: option.splits)

lemma ShortAnswerQuestion_init_raises:
  "ShortAnswerQuestion_init kw = Inl e \<Longrightarrow> e = ValidationError (py ''ShortAnswerQuestion'') kw"
  by (auto simp: ShortAnswerQuestion_init_def split: option.splits)

lemma FillInTheBlank_init_raises:
  "FillInTheBlank_init kw = Inl e \<Longrightarrow> e = ValidationError (py ''FillInTheBlank'') kw"
  by (auto simp: FillInTheBlank_init_def split: option.splits)

lemma construct_raises:
  assumes "construct init q = Inl e" and "\<And>kw e. init kw = Inl e \<Longrightarrow> P e"
    and "\<And>v. P (TypeError v)"
  shows "P e"
  using assms by (cases q) auto

lemma construct_each_raises:
  assumes "construct_each init qs = Inl e" and "\<And>kw e. init kw = Inl e \<Longrightarrow> P e"
    and "\<And>v. P (TypeError v)"
  shows "P e"
  using assms(1)
proof (induction qs)
  case Nil
  then show ?case by simp
next
  case (Cons q qs)
  show ?case
  proof (cases "construct init q")
    case (Inl e')
    with Cons.prems have "e' = e" by simp
    with Inl show ?thesis using construct_raises assms(2,3) by blast
  next
    case (Inr m)
    with Cons.prems have "construct_each init qs = Inl e"
      by (simp split: sum.splits)
    then show ?thesis by (rule Cons.IH)
  qed
qed

lemma comprehension_raises:
  assumes "comprehension init d k = Inl e" and "\<And>kw e. init kw = Inl e \<Longrightarrow> P e"
    and "\<And>v. P (TypeError v)" and "\<And>v. P (AttributeError v)"
  shows "P e"
proof (cases "get_list d k")
  case (Inl e')
  then have "e = e'" using assms(1) by (simp add: comprehension_def)
  moreover have "\<exists>v. e' = AttributeError v" using Inl by (cases d) auto
  ultimately show ?thesis using assms(4) by blast
next
  case (Inr v)
  show ?thesis
  proof (cases "iterate v")
    case (Inl e')
    then have "e = e'" using assms(1) Inr by (simp add: comprehension_def)
    moreover have "\<exists>u. e' = TypeError u" using Inl by (cases v) auto
    ultimately show ?thesis using assms(3) by blast
  next
    case iv: (Inr qs)
    then have "construct_each init qs = Inl e"
      using assms(1) Inr by (simp add: comprehension_def)
    then show ?thesis using assms(2,3) by (rule construct_each_raises)
  qed
qed

lemma parse_into_models_raises:
  assumes "parse_into_models d fname = Inl e"
  shows "\<forall>code detail. e \<noteq> HTTPException code detail"
proof -
  let ?P = "\<lambda>e. \<forall>code detail. e \<noteq> HTTPException code detail"
  have m: "?P e'" if "comprehension MCQQuestion_init d (py ''mcq'') = Inl e'" for e'
    using that by (rule comprehension_raises) (auto dest: MCQQuestion_init_raises)
  have s: "?P e'" if "comprehension ShortAnswerQuestion_init d (py ''short_answer'') = Inl e'" for e'
    using that by (rule comprehension_raises) (auto dest: ShortAnswerQuestion_init_raises)
  have b: "?P e'" if "comprehension FillInTheBlank_init d (py ''fill_in_the_blanks'') = Inl e'" for e'
    using that by (rule comprehension_raises) (auto dest: FillInTheBlank_init_raises)
  show ?thesis
    using assms m s b
    by (auto simp: parse_into_models_def Let_def split: sum.splits)
qed

lemma extract_text_from_pdf_raises:
  "fst (extract_text_from_pdf w b) = Inl e \<Longrightarrow> \<exists>detail. e = HTTPException 400 detail"
  by (auto simp: extract_text_from_pdf_def split: sum.splits)

lemma generate_questions_with_azure_raises:
  "fst (generate_questions_with_azure w text a b c) = Inl e \<Longrightarrow>
   \<exists>detail. e = HTTPException 500 detail"
  by (auto simp: generate_questions_with_azure_def Let_def split: sum.splits exn.splits)

lemma generate_quiz_body_raises:
  assumes "fst (generate_quiz_body w file a b c) = Inl e"
  shows "(\<exists>detail. e = HTTPException 400 detail) \<or> (\<exists>detail. e = HTTPException 500 detail) \<or>
         (\<forall>code detail. e \<noteq> HTTPException code detail)"
proof -
  obtain r1 ev1 where ex: "extract_text_from_pdf w (file_bytes file) = (r1, ev1)"
    by (cases "extract_text_from_pdf w (file_bytes file)")
  show ?thesis
  proof (cases r1)
    case (Inl e1)
    then have "\<exists>detail. e1 = HTTPException 400 detail"
      using extract_text_from_pdf_raises [of w "file_bytes file" e1] ex by simp
    then show ?thesis
      using assms ex Inl by (auto simp: generate_quiz_body_def Let_def split: if_splits)
  next
    case (Inr extracted)
    obtain r2 ev2 where gen: "generate_questions_with_azure w extracted a b c = (r2, ev2)"
      by (cases "generate_questions_with_azure w extracted a b c")
    show ?thesis
    proof (cases r2)
      case (Inl e2)
      then have "\<exists>detail. e2 = HTTPException 500 detail"
        using generate_questions_with_azure_raises [of w extracted a b c e2] gen by simp
      then show ?thesis
        using assms ex Inr gen Inl
        by (auto simp: generate_quiz_body_def Let_def split: if_splits)
    next
      case d: (Inr questions_data)
      show ?thesis
        using assms ex Inr gen d parse_into_models_raises [of questions_data "filename file" e]
        by (auto simp: generate_quiz_body_def Let_def split: if_splits)
    qed
  qed
qed

lemma generate_quiz_wraps:
  assumes "fst (generate_quiz_body w file a b c) = Inl e"
    and "\<forall>code detail. e \<noteq> HTTPException code detail"
  shows "fst (generate_quiz w file a b c) = Inl (HTTPException 500 (py ''Error: '' @ str_exc w e))"
  using assms
  by (cases "generate_quiz_body w file a b c"; cases e) (simp_all add: generate_quiz_def)

lemma generate_quiz_passes:
  "fst (generate_quiz_body w file a b c) = Inl (HTTPException code detail) \<Longrightarrow>
   fst (generate_quiz w file a b c) = Inl (HTTPException code detail)"
  "fst (generate_quiz_body w file a b c) = Inr r \<Longrightarrow> fst (generate_quiz w file a b c) = Inr r"
  by (cases "generate_quiz_body w file a b c"; simp add: generate_quiz_def)+

lemma demo_clean_list: "clean_response (fenced (py ''[]'')) = py ''[]''"
  by (simp add: clean_response_def fenced_def strip_def startswith_def endswith_def
      py_def isspace_def Let_def)

lemma demo_list_body:
  "generate_quiz_body (demo_env demo_pages (fenced (py ''[]'')) (py ''[]'') (JList [])) demo_file 1 1 1 =
     (Inl (AttributeError (JList [])),
      [FileRead, PdfRead (file_bytes demo_file), ChatCompletion system_message (prompt demo_text 1 1 1)])"
proof -
  let ?w = "demo_env demo_pages (fenced (py ''[]'')) (py ''[]'') (JList [])"
  have h5: "chat_completion ?w system_message (prompt demo_text 1 1 1) =
      Inr (Some (fenced (py ''[]'')))"
    by (simp add: demo_env_def)
  have h6: "json_loads ?w (clean_response (fenced (py ''[]''))) = Inr (JList [])"
    by (simp add: demo_env_def demo_clean_list)
  have "parse_into_models (JList []) (filename demo_file) = Inl (AttributeError (JList []))"
    by (simp add: parse_into_models_def comprehension_def)
  then show ?thesis
    using generate_quiz_body_reaches_models
      [OF demo_file_is_pdf demo_file_small demo_file_text demo_text_long h5 h6]
    by simp
qed

lemma demo_bad_body:
  "fst (generate_quiz_body (demo_env demo_pages (fenced bad_json) bad_json bad_doc) demo_file 1 1 1) =
     Inl (ValidationError (py ''MCQQuestion'') bad_mcq)"
proof -
  let ?w = "demo_env demo_pages (fenced bad_json) bad_json bad_doc"
  have h5: "chat_completion ?w system_message (prompt demo_text 1 1 1) =
      Inr (Some (fenced bad_json))"
    by (simp add: demo_env_def)
  have h6: "json_loads ?w (clean_response (fenced bad_json)) = Inr bad_doc"
    by (simp add: demo_env_def demo_clean_bad)
  have "comprehension MCQQuestion_init bad_doc (py ''mcq'') =
      Inl (ValidationError (py ''MCQQuestion'') bad_mcq)"
    using MCQQuestion_init_bad [of bad_mcq] bad_not_ok
    by (simp add: comprehension_def bad_doc_def)
  then have "parse_into_models bad_doc (filename demo_file) =
      Inl (ValidationError (py ''MCQQuestion'') bad_mcq)"
    by (simp add: parse_into_models_def)
  then show ?thesis
    using generate_quiz_body_reaches_models
      [OF demo_file_is_pdf demo_file_small demo_file_text demo_text_long h5 h6]
    by simp
qed

text \<open>
  Claim C2, as the code has it. The outermost boundary of the pipeline is the last
  \<open>except\<close> clause of \<open>generate_quiz\<close>. Whatever the libraries do, the handler ends
  with a response or with an \<open>HTTPException\<close> of status 400 or 500: no other fault
  leaves it. A fault of the pipeline that is not an \<open>HTTPException\<close> (one the pipeline
  has not classified) is reported as status 500 with the detail \<open>Error: \<close> followed by
  \<open>str(e)\<close>, so the detail is not a fixed message and carries the text of the fault.
  The application's catch-all handler, for any exception it is given, answers with
  status 500 and a body of exactly three entries: \<open>success\<close> false, the fixed message
  "Internal server error", and \<open>error\<close>, which is \<open>str(exc)\<close> verbatim.
\<close>

theorem unclassified_fault_reported_as_500:
  "((\<exists>r. fst (generate_quiz w file num_mcq num_short_answer num_fill_blanks) = Inr r) \<or>
    (\<exists>detail. fst (generate_quiz w file num_mcq num_short_answer num_fill_blanks) =
       Inl (HTTPException 400 detail)) \<or>
    (\<exists>detail. fst (generate_quiz w file num_mcq num_short_answer num_fill_blanks) =
       Inl (HTTPException 500 detail))) \<and>
   (\<forall>e. fst (generate_quiz_body w file num_mcq num_short_answer num_fill_blanks) = Inl e \<and>
        (\<forall>code detail. e \<noteq> HTTPException code detail) \<longrightarrow>
        fst (generate_quiz w file num_mcq num_short_answer num_fill_blanks) =
          Inl (HTTPException 500 (py ''Error: '' @ str_exc w e))) \<and>
   status_code (global_exception_handler w request exc) = 500 \<and>
   map fst (content (global_exception_handler w request exc)) =
     [py ''success'', py ''message'', py ''error''] \<and>
   map_of (content (global_exception_handler w request exc)) (py ''success'') = Some (JBool False) \<and>
   map_of (content (global_exception_handler w request exc)) (py ''message'') =
     Some (JStr (py ''Internal server error'')) \<and>
   map_of (content (global_exception_handler w request exc)) (py ''error'') =
     Some (JStr (str_exc w exc))"
proof -
  let ?body = "generate_quiz_body w file num_mcq num_short_answer num_fill_blanks"
  let ?res = "generate_quiz w file num_mcq num_short_answer num_fill_blanks"
  have outcome: "(\<exists>r. fst ?res = Inr r) \<or> (\<exists>detail. fst ?res = Inl (HTTPException 400 detail)) \<or>
      (\<exists>detail. fst ?res = Inl (HTTPException 500 detail))"
  proof (cases "fst ?body")
    case (Inr r)
    then show ?thesis using generate_quiz_passes(2) by blast
  next
    case (Inl e)
    from generate_quiz_body_raises [OF Inl]
    consider detail where "e = HTTPException 400 detail"
      | detail where "e = HTTPException 500 detail"
      | "\<forall>code detail. e \<noteq> HTTPException code detail"
      by blast
    then show ?thesis
    proof cases
      case 1
      then show ?thesis using Inl generate_quiz_passes(1) by blast
    next
      case 2
      then show ?thesis using Inl generate_quiz_passes(1) by blast
    next
      case 3
      then show ?thesis using generate_quiz_wraps [OF Inl] by blast
    qed
  qed
  have wrap: "\<forall>e. fst ?body = Inl e \<and> (\<forall>code detail. e \<noteq> HTTPException code detail) \<longrightarrow>
      fst ?res = Inl (HTTPException 500 (py ''Error: '' @ str_exc w e))"
    using generate_quiz_wraps by blast
  have handler: "status_code (global_exception_handler w request exc) = 500 \<and>
     map fst (content (global_exception_handler w request exc)) =
       [py ''success'', py ''message'', py ''error''] \<and>
     map_of (content (global_exception_handler w request exc)) (py ''success'') = Some (JBool False) \<and>
     map_of (content (global_exception_handler w request exc)) (py ''message'') =
       Some (JStr (py ''Internal server error'')) \<and>
     map_of (content (global_exception_handler w request exc)) (py ''error'') =
       Some (JStr (str_exc w exc))"
    by (simp add: global_exception_handler_def py_def)
  from outcome wrap handler show ?thesis by blast
qed

theorem unclassified_fault_reported_as_500_witness:
  "fst (generate_quiz_body (demo_env demo_pages (fenced (py ''[]'')) (py ''[]'') (JList []))
          demo_file 1 1 1) = Inl (AttributeError (JList [])) \<and>
   (\<forall>code detail. AttributeError (JList []) \<noteq> HTTPException code detail) \<and>
   fst (generate_quiz (demo_env demo_pages (fenced (py ''[]'')) (py ''[]'') (JList []))
          demo_file 1 1 1) = Inl (HTTPException 500 (py ''Error: AttributeError''))"
proof -
  let ?w = "demo_env demo_pages (fenced (py ''[]'')) (py ''[]'') (JList [])"
  have b: "fst (generate_quiz_body ?w demo_file 1 1 1) = Inl (AttributeError (JList []))"
    by (simp add: demo_list_body)
  have n: "\<forall>code detail. AttributeError (JList []) \<noteq> HTTPException code detail"
    by simp
  have s: "py ''Error: '' @ str_exc ?w (AttributeError (JList [])) = py ''Error: AttributeError''"
    by (simp add: demo_env_def py_def)
  have "fst (generate_quiz ?w demo_file 1 1 1) =
      Inl (HTTPException 500 (py ''Error: '' @ str_exc ?w (AttributeError (JList []))))"
    using unclassified_fault_reported_as_500 [of ?w demo_file 1 1 1 "()" "AttributeError (JList [])"]
      b n by blast
  then have "fst (generate_quiz ?w demo_file 1 1 1) =
      Inl (HTTPException 500 (py ''Error: AttributeError''))"
    by (simp only: s)
  with b n show ?thesis by blast
qed

text \<open>
  Neither boundary gives a fixed, detail-free answer. A decoded document that is a list
  and one with a defective record end in 500s with different details, each naming its
  fault; and the catch-all handler returns the text of the exception in \<open>error\<close>, so
  two faults with different texts get different responses.
\<close>

theorem fault_text_in_response_counterexample:
  "fst (generate_quiz (demo_env demo_pages (fenced (py ''[]'')) (py ''[]'') (JList []))
          demo_file 1 1 1) = Inl (HTTPException 500 (py ''Error: AttributeError'')) \<and>
   fst (generate_quiz (demo_env demo_pages (fenced bad_json) bad_json bad_doc)
          demo_file 1 1 1) = Inl (HTTPException 500 (py ''Error: MCQQuestion'')) \<and>
   map_of (content (global_exception_handler (demo_env [] [] [] JNull) ()
             (OtherException (py ''connect to db01 failed: password=hunter2''))))
     (py ''error'') = Some (JStr (py ''connect to db01 failed: password=hunter2'')) \<and>
   global_exception_handler (demo_env [] [] [] JNull) ()
       (OtherException (py ''connect to db01 failed: password=hunter2'')) \<noteq>
   global_exception_handler (demo_env [] [] [] JNull) () (OtherException (py ''disk full''))"
proof -
  let ?w1 = "demo_env demo_pages (fenced (py ''[]'')) (py ''[]'') (JList [])"
  let ?w2 = "demo_env demo_pages (fenced bad_json) bad_json bad_doc"
  have b1: "fst (generate_quiz_body ?w1 demo_file 1 1 1) = Inl (AttributeError (JList []))"
    by (simp add: demo_list_body)
  have n1: "\<forall>code detail. AttributeError (JList []) \<noteq> HTTPException code detail"
    by simp
  have s1: "py ''Error: '' @ str_exc ?w1 (AttributeError (JList [])) = py ''Error: AttributeError''"
    by (simp add: demo_env_def py_def)
  have 1: "fst (generate_quiz ?w1 demo_file 1 1 1) =
      Inl (HTTPException 500 (py ''Error: AttributeError''))"
    using generate_quiz_wraps [OF b1 n1] by (simp only: s1)
  have n2: "\<forall>code detail. ValidationError (py ''MCQQuestion'') bad_mcq \<noteq> HTTPException code detail"
    by simp
  have s2: "py ''Error: '' @ str_exc ?w2 (ValidationError (py ''MCQQuestion'') bad_mcq) =
      py ''Error: MCQQuestion''"
    by (simp add: demo_env_def py_def)
  have 2: "fst (generate_quiz ?w2 demo_file 1 1 1) =
      Inl (HTTPException 500 (py ''Error: MCQQuestion''))"
    using generate_quiz_wraps [OF demo_bad_body n2] by (simp only: s2)
  have 3: "map_of (content (global_exception_handler (demo_env [] [] [] JNull) ()
             (OtherException (py ''connect to db01 failed: password=hunter2''))))
     (py ''error'') = Some (JStr (py ''connect to db01 failed: password=hunter2'')) \<and>
   global_exception_handler (demo_env [] [] [] JNull) ()
       (OtherException (py ''connect to db01 failed: password=hunter2'')) \<noteq>
   global_exception_handler (demo_env [] [] [] JNull) () (OtherException (py ''disk full''))"
    by (simp add: global_exception_handler_def demo_env_def py_def)
  from 1 2 3 show ?thesis by blast
qed

end
